theory Spec2Isabelle
  imports Complex_Main "HOL-Library.Word"
begin

section \<open>The MNIST training and serving script (mnist.py)\<close>

text \<open>
  A shallow embedding of \<^verbatim>\<open>sagemaker_neo_compilation_jobs/mxnet_mnist/mnist.py\<close>.
  Python exceptions are values of the type \<open>error\<close>; a function that may raise returns
  \<open>error + 'a\<close>, with \<open>Inl\<close> for the exception.  The deep-learning framework, the
  operating system and the gzip library are not part of the script: what they compute is
  taken as a parameter (records \<open>os_env\<close>, \<open>mx\<close> and \<open>serving\<close> below).
\<close>

subsection \<open>Exceptions\<close>

datatype error =
    TypeError
  | StructError
  | ValueError
  | OSError
  | EOFError
  | IndexError
  | ZeroDivisionError
  | UnboundLocalError
  | RuntimeError string
  | MXNetError

subsection \<open>Device selection (lines 40-44)\<close>

datatype device = gpu int | cpu

text \<open>
  \<^verbatim>\<open>get_training_context\<close> returns a list of contexts in one branch and a single
  context (not a list) in the other.
\<close>

datatype training_context = ContextList "device list" | SingleContext device

text \<open>
  \<^verbatim>\<open>range(num_gpus)\<close> is \<open>0, ..., num_gpus - 1\<close>, and empty when \<open>num_gpus \<le> 0\<close>.
\<close>

definition py_range :: "int \<Rightarrow> int list" where
  "py_range n = [0..n - 1]"

text \<open>
  \<^verbatim>\<open>if num_gpus:\<close> tests the truth value of a Python integer: every integer but 0 is true.
\<close>

definition get_training_context :: "int \<Rightarrow> training_context" where
  "get_training_context num_gpus =
     (if num_gpus \<noteq> 0 then ContextList (map gpu (py_range num_gpus))
      else SingleContext cpu)"

subsection \<open>The operating system and the gzip library\<close>

type_synonym byte = "8 word"

text \<open>
  What the script sees of the file system: \<open>os_walk env p\<close> is the sequence of triples
  \<open>(root, dirs, files)\<close> that \<^verbatim>\<open>os.walk(p)\<close> yields; \<open>gzip_contents env p\<close> is what
  opening the gzip file at path \<open>p\<close> and reading it to its end gives: its decompressed
  content, or the exception that opening or reading it raises (OSError for a file that
  cannot be opened or is not a gzip file, EOFError for a truncated stream);
  \<open>writable env p\<close> tells whether a file can be created at path \<open>p\<close>.
\<close>

record os_env =
  os_walk :: "string \<Rightarrow> (string \<times> string list \<times> string list) list"
  gzip_contents :: "string \<Rightarrow> error + byte list"
  writable :: "string \<Rightarrow> bool"

text \<open>\<^verbatim>\<open>os.path.join(a, b)\<close> of posixpath.\<close>

definition os_path_join :: "string \<Rightarrow> string \<Rightarrow> string" where
  "os_path_join a b =
     (if b \<noteq> [] \<and> hd b = CHR ''/'' then b
      else if a = [] \<or> last a = CHR ''/'' then a @ b
      else a @ ''/'' @ b)"

subsection \<open>find\_file (lines 23-26)\<close>

text \<open>
  The loop over the triples of \<^verbatim>\<open>os.walk\<close> returns at the first directory that lists the
  name.  When the loop ends the function falls off its end and returns Python's \<open>None\<close>.
\<close>

fun find_file_loop :: "(string \<times> string list \<times> string list) list \<Rightarrow> string \<Rightarrow> string option" where
  "find_file_loop [] file_name = None"
| "find_file_loop ((rootp, dirs, files) # rest) file_name =
     (if file_name \<in> set files then Some (os_path_join rootp file_name)
      else find_file_loop rest file_name)"

definition find_file :: "os_env \<Rightarrow> string \<Rightarrow> string \<Rightarrow> string option" where
  "find_file env root_path file_name = find_file_loop (os_walk env root_path) file_name"

text \<open>
  \<^verbatim>\<open>gzip.open(p)\<close> followed by reading: \<^verbatim>\<open>gzip.open(None)\<close> raises TypeError ("filename
  must be a str or bytes object, or a file").  The stream is read lazily, so the exception
  of a damaged file is raised by \<^verbatim>\<open>read\<close>, for a stream that breaks after the header
  only once the header is unpacked.  Between opening a file and reading it to its end
  \<^verbatim>\<open>load_data\<close> has no effect and raises nothing but that exception or, on a complete
  stream that is too short, struct.error; so the outcome is the same when the exception
  is taken at the opening.
\<close>

definition gzip_open :: "os_env \<Rightarrow> string option \<Rightarrow> error + byte list" where
  "gzip_open env filename =
     (case filename of
        None \<Rightarrow> Inl TypeError
      | Some p \<Rightarrow> gzip_contents env p)"

subsection \<open>struct.unpack\<close>

text \<open>A big-endian unsigned integer (format \<^verbatim>\<open>>I\<close> on four bytes).\<close>

definition be_uint :: "byte list \<Rightarrow> nat" where
  "be_uint bs = foldl (\<lambda>acc b. acc * 256 + unat b) 0 bs"

text \<open>
  \<^verbatim>\<open>struct.unpack(">II", b)\<close> and \<^verbatim>\<open>struct.unpack(">IIII", b)\<close> raise struct.error unless
  the buffer has exactly 8, respectively 16, bytes.
\<close>

definition struct_unpack_II :: "byte list \<Rightarrow> error + nat \<times> nat" where
  "struct_unpack_II b =
     (if length b \<noteq> 8 then Inl StructError
      else Inr (be_uint (take 4 b), be_uint (take 4 (drop 4 b))))"

definition struct_unpack_IIII :: "byte list \<Rightarrow> error + nat \<times> nat \<times> nat \<times> nat" where
  "struct_unpack_IIII b =
     (if length b \<noteq> 16 then Inl StructError
      else Inr (be_uint (take 4 b), be_uint (take 4 (drop 4 b)),
                be_uint (take 4 (drop 8 b)), be_uint (take 4 (drop 12 b))))"

subsection \<open>numpy arrays\<close>

text \<open>
  An array is its shape and its elements in row-major order; the number of elements is
  the product of the shape.
\<close>

record 'a ndarray =
  shape :: "nat list"
  data :: "'a list"

text \<open>
  \<^verbatim>\<open>np.fromstring(b, dtype=np.int8)\<close> and \<^verbatim>\<open>np.fromstring(b, dtype=np.uint8)\<close>: a
  one-dimensional array with one element per byte, read as a signed, respectively unsigned,
  8-bit integer (the binary mode of \<^verbatim>\<open>fromstring\<close>; an empty buffer gives an empty array).
\<close>

definition np_fromstring_int8 :: "byte list \<Rightarrow> int ndarray" where
  "np_fromstring_int8 b = \<lparr>shape = [length b], data = map sint b\<rparr>"

definition np_fromstring_uint8 :: "byte list \<Rightarrow> byte ndarray" where
  "np_fromstring_uint8 b = \<lparr>shape = [length b], data = b\<rparr>"

text \<open>
  \<^verbatim>\<open>a.reshape(new_shape)\<close> raises ValueError ("cannot reshape array of size ... into
  shape ...") unless the sizes agree.  It then multiplies the size of an element by the
  dimensions that are not zero, and raises ValueError ("array is too big") when the
  product exceeds the largest array size, \<open>2 ^ 63 - 1\<close> on a 64-bit build.  (The
  multiplication of the first test is checked for overflow as well, with the first error;
  a product that overflows there exceeds the largest size here.)
\<close>

definition max_intp :: nat where
  "max_intp = 2 ^ 63 - 1"

definition nbytes :: "nat \<Rightarrow> nat list \<Rightarrow> nat" where
  "nbytes itemsize dims = itemsize * prod_list (filter (\<lambda>d. d \<noteq> 0) dims)"

definition reshape :: "nat \<Rightarrow> 'a ndarray \<Rightarrow> nat list \<Rightarrow> error + 'a ndarray" where
  "reshape itemsize a new_shape =
     (if prod_list new_shape \<noteq> length (data a) then Inl ValueError
      else if max_intp < nbytes itemsize new_shape then Inl ValueError
      else Inr (a\<lparr>shape := new_shape\<rparr>))"

text \<open>\<^verbatim>\<open>len(a)\<close> raises TypeError on an array without dimensions.\<close>

definition len :: "'a ndarray \<Rightarrow> error + nat" where
  "len a = (case shape a of [] \<Rightarrow> Inl TypeError | n # _ \<Rightarrow> Inr n)"

text \<open>\<^verbatim>\<open>a.shape[0]\<close> raises IndexError on an array without dimensions.\<close>

definition shape0 :: "'a ndarray \<Rightarrow> error + nat" where
  "shape0 a = (case shape a of [] \<Rightarrow> Inl IndexError | n # _ \<Rightarrow> Inr n)"

definition nd_map :: "('a \<Rightarrow> 'b) \<Rightarrow> 'a ndarray \<Rightarrow> 'b ndarray" where
  "nd_map f a = \<lparr>shape = shape a, data = map f (data a)\<rparr>"

text \<open>
  \<^verbatim>\<open>a[start:stop]\<close> with indices that are not negative: a slice along the first axis,
  clipped to the length of that axis.  Indexing an array without dimensions raises
  IndexError.
\<close>

definition nd_slice :: "'a ndarray \<Rightarrow> nat \<Rightarrow> nat \<Rightarrow> error + 'a ndarray" where
  "nd_slice a start stop =
     (case shape a of
        [] \<Rightarrow> Inl IndexError
      | n # inner \<Rightarrow>
          let lo = min start n; hi = min stop n; k = prod_list inner
          in Inr \<lparr>shape = (hi - lo) # inner, data = take ((hi - lo) * k) (drop (lo * k) (data a))\<rparr>)"

text \<open>The elements of \<^verbatim>\<open>a[j]\<close>, the \<open>j\<close>-th entry along the first axis.\<close>

definition nd_item :: "'a ndarray \<Rightarrow> nat \<Rightarrow> 'a list" where
  "nd_item a j = (let k = prod_list (tl (shape a)) in take k (drop (j * k) (data a)))"

subsection \<open>float32\<close>

text \<open>
  A finite float32 is the rational number it denotes.  \<open>f32_round x\<close> is the float32
  nearest to \<open>x\<close>, ties to the even significand, for \<open>0 \<le> x < 2\<close>: with \<open>m\<close> the least
  exponent such that \<open>1 \<le> x * 2 ^ m\<close>, the float32 values around \<open>x\<close> are the multiples of
  \<open>2 ^ -(m + 23)\<close> (24 significant bits); below \<open>2 ^ -126\<close> they are the multiples of
  \<open>2 ^ -149\<close>.
\<close>

type_synonym float32 = rat

definition round_half_even :: "rat \<Rightarrow> int" where
  "round_half_even q =
     (let f = \<lfloor>q\<rfloor>; r = q - of_int f
      in if r < 1 / 2 then f else if 1 / 2 < r then f + 1
         else if even f then f else f + 1)"

definition f32_round :: "rat \<Rightarrow> float32" where
  "f32_round x =
     (case find (\<lambda>m. 1 \<le> x * 2 ^ m) [0..<127] of
        Some m \<Rightarrow> of_int (round_half_even (x * 2 ^ (m + 23))) / 2 ^ (m + 23)
      | None \<Rightarrow> of_int (round_half_even (x * 2 ^ 149)) / 2 ^ 149)"

text \<open>
  \<^verbatim>\<open>astype(np.float32)\<close> of an unsigned 8-bit integer is exact.  It makes a new array of
  elements of size 4, and raises ValueError ("array is too big") when that exceeds the
  largest array size.
\<close>

definition astype_float32 :: "byte \<Rightarrow> float32" where
  "astype_float32 b = of_nat (unat b)"

definition nd_astype_float32 :: "byte ndarray \<Rightarrow> error + float32 ndarray" where
  "nd_astype_float32 a =
     (if max_intp < nbytes 4 (shape a) then Inl ValueError else Inr (nd_map astype_float32 a))"

text \<open>The float32 quotient: the exact quotient, rounded.\<close>

definition f32_div :: "float32 \<Rightarrow> float32 \<Rightarrow> float32" where
  "f32_div x y = f32_round (x / y)"

subsection \<open>load\_data (lines 12-20)\<close>

text \<open>
  Sequencing of steps that may raise: the first exception ends the function.  The arrays
  that are reshaped hold unsigned 8-bit integers, of size 1.
\<close>

definition on_ok :: "error + 'a \<Rightarrow> ('a \<Rightarrow> error + 'b) \<Rightarrow> error + 'b" where
  "on_ok r f = (case r of Inl e \<Rightarrow> Inl e | Inr x \<Rightarrow> f x)"

definition load_data :: "os_env \<Rightarrow> string \<Rightarrow> error + int ndarray \<times> float32 ndarray" where
  "load_data env path =
     on_ok (gzip_open env (find_file env path ''labels.gz'')) (\<lambda>flbl.
     on_ok (struct_unpack_II (take 8 flbl)) (\<lambda>_.
     let labels = np_fromstring_int8 (drop 8 flbl) in
     on_ok (gzip_open env (find_file env path ''images.gz'')) (\<lambda>fimg.
     on_ok (struct_unpack_IIII (take 16 fimg)) (\<lambda>(_, _, rows, cols).
     on_ok (len labels) (\<lambda>n.
     on_ok (reshape 1 (np_fromstring_uint8 (drop 16 fimg)) [n, rows, cols]) (\<lambda>images.
     on_ok (shape0 images) (\<lambda>n0.
     on_ok (reshape 1 images [n0, 1, 28, 28]) (\<lambda>images.
     on_ok (nd_astype_float32 images) (\<lambda>images.
     Inr (labels, nd_map (\<lambda>x. f32_div x 255) images))))))))))"

subsection \<open>Effects\<close>

text \<open>
  A step of the script acts on a world (the calls made into the framework so far, the
  files written so far) and either raises or returns a value.
\<close>

type_synonym ('w, 'a) action = "'w \<Rightarrow> 'w \<times> (error + 'a)"

definition no_effect :: "error + 'a \<Rightarrow> ('w, 'a) action" where
  "no_effect r w = (w, r)"

definition and_then :: "('w, 'a) action \<Rightarrow> ('a \<Rightarrow> ('w, 'b) action) \<Rightarrow> ('w, 'b) action" where
  "and_then m f w = (case m w of (w', Inl e) \<Rightarrow> (w', Inl e) | (w', Inr x) \<Rightarrow> f x w')"

subsection \<open>build\_graph (lines 29-37)\<close>

datatype symbol =
    Var string
  | Flatten symbol
  | FullyConnected symbol nat
  | Activation symbol string
  | SoftmaxOutput symbol string

definition build_graph :: symbol where
  "build_graph =
     (let data = Var ''data'';
          data = Flatten data;
          fc1 = FullyConnected data 128;
          act1 = Activation fc1 ''relu'';
          fc2 = FullyConnected act1 64;
          act2 = Activation fc2 ''relu'';
          fc3 = FullyConnected act2 10
      in SoftmaxOutput fc3 ''softmax'')"

subsection \<open>The framework, as the training driver uses it\<close>

text \<open>
  \<open>'it\<close> is the type of data iterators, \<open>'md\<close> of modules, \<open>'lr\<close> of Python floats.
  \<open>fit\<close> takes the module, the two iterators, the kvstore, the learning rate, the batch
  size of the speedometer callback and the number of epochs, and returns the trained
  module; the order in which a shuffling iterator presents its samples is the framework's.
\<close>

record ('it, 'md, 'lr) mx =
  NDArrayIter :: "float32 ndarray \<Rightarrow> int ndarray \<Rightarrow> int \<Rightarrow> bool \<Rightarrow> error + 'it"
  Module :: "symbol \<Rightarrow> training_context \<Rightarrow> error + 'md"
  fit :: "'md \<Rightarrow> 'it \<Rightarrow> 'it \<Rightarrow> string \<Rightarrow> 'lr \<Rightarrow> int \<Rightarrow> int \<Rightarrow> error + 'md"
  data_shapes :: "'md \<Rightarrow> (string \<times> nat list) list"

text \<open>
  The calls that \<^verbatim>\<open>train\<close> makes, with their arguments: \<open>fit_call\<close> holds the module
  that is fitted, the training iterator, the validation iterator, the kvstore, the
  learning rate, the batch size and the number of epochs.
\<close>

datatype ('it, 'md, 'lr) call =
    NDArrayIter_call "float32 ndarray" "int ndarray" int bool
  | setLevel_call
  | Module_call symbol training_context
  | fit_call 'md 'it 'it string 'lr int int
  | save_call string

datatype 'md file_content =
    symbol_json 'md
  | params 'md
  | shapes_json "(string \<times> nat list) list"

record ('it, 'md, 'lr) world =
  calls :: "('it, 'md, 'lr) call list"
  written :: "(string \<times> 'md file_content) list"

definition world0 :: "('it, 'md, 'lr) world" where
  "world0 = \<lparr>calls = [], written = []\<rparr>"

text \<open>A call is recorded when it is made, whatever it returns.\<close>

definition call :: "('it, 'md, 'lr) call \<Rightarrow> error + 'a \<Rightarrow> (('it, 'md, 'lr) world, 'a) action" where
  "call c r w = (w\<lparr>calls := calls w @ [c]\<rparr>, r)"

text \<open>
  The calls into the framework: each is recorded with the arguments it is made on, and
  returns or raises what the framework does on these arguments.
\<close>

definition mx_io_NDArrayIter ::
  "('it, 'md, 'lr) mx \<Rightarrow> float32 ndarray \<Rightarrow> int ndarray \<Rightarrow> int \<Rightarrow> bool \<Rightarrow>
   (('it, 'md, 'lr) world, 'it) action" where
  "mx_io_NDArrayIter fw images labels batch_size shuffle =
     call (NDArrayIter_call images labels batch_size shuffle)
       (NDArrayIter fw images labels batch_size shuffle)"

definition mx_mod_Module ::
  "('it, 'md, 'lr) mx \<Rightarrow> symbol \<Rightarrow> training_context \<Rightarrow> (('it, 'md, 'lr) world, 'md) action" where
  "mx_mod_Module fw graph ctx = call (Module_call graph ctx) (Module fw graph ctx)"

definition Module_fit ::
  "('it, 'md, 'lr) mx \<Rightarrow> 'md \<Rightarrow> 'it \<Rightarrow> 'it \<Rightarrow> string \<Rightarrow> 'lr \<Rightarrow> int \<Rightarrow> int \<Rightarrow>
   (('it, 'md, 'lr) world, 'md) action" where
  "Module_fit fw model train_data eval_data kvstore learning_rate batch_size num_epoch =
     call (fit_call model train_data eval_data kvstore learning_rate batch_size num_epoch)
       (fit fw model train_data eval_data kvstore learning_rate batch_size num_epoch)"

text \<open>
  Writing a file: \<open>e\<close> is the exception of the writer when the file cannot be created
  (MXNetError for the framework's \<^verbatim>\<open>save\<close> and \<^verbatim>\<open>save_params\<close>, OSError for \<^verbatim>\<open>open\<close>).
\<close>

definition write_file ::
  "os_env \<Rightarrow> error \<Rightarrow> string \<Rightarrow> 'md file_content \<Rightarrow> (('it, 'md, 'lr) world, unit) action" where
  "write_file env e p c w =
     (if writable env p then (w\<lparr>written := written w @ [(p, c)]\<rparr>, Inr ())
      else (w, Inl e))"

subsection \<open>save (lines 84-91)\<close>

definition save ::
  "os_env \<Rightarrow> ('it, 'md, 'lr) mx \<Rightarrow> string \<Rightarrow> 'md \<Rightarrow> (('it, 'md, 'lr) world, unit) action" where
  "save env fw model_dir model =
     and_then (write_file env MXNetError (os_path_join model_dir ''model-symbol.json'')
                 (symbol_json model)) (\<lambda>_.
     and_then (write_file env MXNetError (os_path_join model_dir ''model-0000.params'')
                 (params model)) (\<lambda>_.
     let signature = map (\<lambda>data_desc. (fst data_desc, snd data_desc)) (data_shapes fw model)
     in write_file env OSError (os_path_join model_dir ''model-shapes.json'')
          (shapes_json signature)))"

subsection \<open>train (lines 47-81)\<close>

text \<open>
  The loop of lines 55-59 over \<^verbatim>\<open>enumerate(hosts)\<close>: at the first host equal to
  \<^verbatim>\<open>current_host\<close> it binds \<^verbatim>\<open>start\<close> and \<^verbatim>\<open>end\<close> and breaks; \<open>None\<close> when the
  loop ends with neither bound.
\<close>

fun shard_loop :: "nat \<Rightarrow> nat \<Rightarrow> string list \<Rightarrow> string \<Rightarrow> (nat \<times> nat) option" where
  "shard_loop shard_size i [] current_host = None"
| "shard_loop shard_size i (host # rest) current_host =
     (if host = current_host then
        (let start = shard_size * i; stop = start + shard_size in Some (start, stop))
      else shard_loop shard_size (Suc i) rest current_host)"

text \<open>
  Lines 54-59, and the first use of \<^verbatim>\<open>start\<close> on line 61, for a training set of \<open>n\<close>
  samples: the division raises ZeroDivisionError when there is no host, and reading
  \<^verbatim>\<open>start\<close> raises UnboundLocalError when the loop has not bound it.
\<close>

definition shard_bounds :: "nat \<Rightarrow> string list \<Rightarrow> string \<Rightarrow> error + nat \<times> nat" where
  "shard_bounds n hosts current_host =
     (if length hosts = 0 then Inl ZeroDivisionError
      else let shard_size = n div length hosts
           in case shard_loop shard_size 0 hosts current_host of
                None \<Rightarrow> Inl UnboundLocalError
              | Some b \<Rightarrow> Inr b)"

text \<open>\<^verbatim>\<open>hosts[0]\<close> raises IndexError on the empty list.\<close>

definition first_host :: "string list \<Rightarrow> error + string" where
  "first_host hosts = (case hosts of [] \<Rightarrow> Inl IndexError | h # _ \<Rightarrow> Inr h)"

definition train ::
  "os_env \<Rightarrow> ('it, 'md, 'lr) mx \<Rightarrow> int \<Rightarrow> int \<Rightarrow> 'lr \<Rightarrow> int \<Rightarrow> string \<Rightarrow> string \<Rightarrow>
   string list \<Rightarrow> string \<Rightarrow> string \<Rightarrow> (('it, 'md, 'lr) world, unit) action" where
  "train env fw batch_size epochs learning_rate num_gpus training_channel testing_channel
         hosts current_host model_dir =
     and_then (no_effect (load_data env training_channel)) (\<lambda>(train_labels, train_images).
     and_then (no_effect (load_data env testing_channel)) (\<lambda>(test_labels, test_images).
     and_then (no_effect (len train_images)) (\<lambda>n.
     and_then (no_effect (shard_bounds n hosts current_host)) (\<lambda>(start, stop).
     and_then (no_effect (nd_slice train_images start stop)) (\<lambda>shard_images.
     and_then (no_effect (nd_slice train_labels start stop)) (\<lambda>shard_labels.
     and_then (mx_io_NDArrayIter fw shard_images shard_labels batch_size True) (\<lambda>train_iter.
     and_then (mx_io_NDArrayIter fw test_images test_labels batch_size False) (\<lambda>val_iter.
     and_then (call setLevel_call (Inr ())) (\<lambda>_.
     let kvstore = (if length hosts = 1 then ''local'' else ''dist_sync'') in
     and_then (mx_mod_Module fw build_graph (get_training_context num_gpus)) (\<lambda>mlp_model.
     and_then (Module_fit fw mlp_model train_iter val_iter kvstore learning_rate batch_size epochs)
       (\<lambda>mlp_model.
     and_then (no_effect (first_host hosts)) (\<lambda>leader.
     if current_host = leader then
       and_then (call (save_call model_dir) (Inr ())) (\<lambda>_. save env fw model_dir mlp_model)
     else no_effect (Inr ())))))))))))))"

text \<open>
  The sample indices of the shard of a host, for stating what the shards cover: the range
  \<open>start, ..., stop - 1\<close> of \<open>shard_bounds\<close>, and no index when the host has no shard.
\<close>

definition shard_indices :: "nat \<Rightarrow> string list \<Rightarrow> string \<Rightarrow> nat set" where
  "shard_indices n hosts h =
     (case shard_bounds n hosts h of Inr (start, stop) \<Rightarrow> {start..<stop} | Inl _ \<Rightarrow> {})"

subsection \<open>The framework, as the inference hook uses it\<close>

text \<open>
  \<open>'m\<close> is the state of the model handle, \<open>'n\<close> the type of what \<^verbatim>\<open>np.load\<close> returns,
  \<open>'f\<close> the type of the floating-point numbers of the framework's arrays.  \<open>forward\<close>
  returns the new state of the handle and the exception it raised, if any.  The
  floating-point operations of numpy (\<^verbatim>\<open>exp\<close>, subtraction, division, \<^verbatim>\<open>max\<close> and \<^verbatim>\<open>sum\<close>
  over all elements) and \<^verbatim>\<open>json.dumps(a.tolist())\<close> are parameters as well.
\<close>

record ('m, 'n, 'f) serving =
  np_load :: "byte list \<Rightarrow> error + 'n"
  nd_array :: "'n \<Rightarrow> error + 'f ndarray"
  forward :: "'m \<Rightarrow> 'f ndarray \<Rightarrow> 'm \<times> error option"
  get_outputs :: "'m \<Rightarrow> 'f ndarray list"
  np_exp :: "'f \<Rightarrow> 'f"
  np_subtract :: "'f \<Rightarrow> 'f \<Rightarrow> 'f"
  np_divide :: "'f \<Rightarrow> 'f \<Rightarrow> 'f"
  np_max :: "'f list \<Rightarrow> 'f"
  np_sum :: "'f list \<Rightarrow> 'f"
  json_dumps_tolist :: "'f ndarray \<Rightarrow> string"

datatype event =
    logging_info string
  | np_load_event
  | nd_array_event
  | forward_event
  | get_outputs_event

record 'm serve_world =
  handle :: 'm
  events :: "event list"

definition emit :: "event \<Rightarrow> error + 'a \<Rightarrow> ('m serve_world, 'a) action" where
  "emit ev r w = (w\<lparr>events := events w @ [ev]\<rparr>, r)"

definition mod_forward :: "('m, 'n, 'f) serving \<Rightarrow> 'f ndarray \<Rightarrow> ('m serve_world, unit) action" where
  "mod_forward sv batch w =
     (let (m', exn) = forward sv (handle w) batch;
          w' = w\<lparr>handle := m', events := events w @ [forward_event]\<rparr>
      in (w', case exn of None \<Rightarrow> Inr () | Some e \<Rightarrow> Inl e))"

text \<open>\<^verbatim>\<open>mod.get_outputs()[0]\<close> raises IndexError when there is no output.\<close>

definition mod_get_outputs_0 :: "('m, 'n, 'f) serving \<Rightarrow> ('m serve_world, 'f ndarray) action" where
  "mod_get_outputs_0 sv w =
     (w\<lparr>events := events w @ [get_outputs_event]\<rparr>,
      case get_outputs sv (handle w) of [] \<Rightarrow> Inl IndexError | out # _ \<Rightarrow> Inr out)"

text \<open>\<^verbatim>\<open>np.squeeze\<close> drops the axes of length one.\<close>

definition np_squeeze :: "'a ndarray \<Rightarrow> 'a ndarray" where
  "np_squeeze a = a\<lparr>shape := filter (\<lambda>d. d \<noteq> 1) (shape a)\<rparr>"

text \<open>\<^verbatim>\<open>np.max\<close> raises ValueError on an array without elements.\<close>

definition np_max_all :: "('m, 'n, 'f) serving \<Rightarrow> 'f ndarray \<Rightarrow> error + 'f" where
  "np_max_all sv a = (if data a = [] then Inl ValueError else Inr (np_max sv (data a)))"

subsection \<open>transform\_fn (lines 131-158)\<close>

definition transform_fn ::
  "('m, 'n, 'f) serving \<Rightarrow> byte list \<Rightarrow> string \<Rightarrow> string \<Rightarrow> ('m serve_world, string \<times> string) action" where
  "transform_fn sv payload input_content_type output_content_type =
     and_then (emit (logging_info ''Invoking user-defined transform_fn'') (Inr ())) (\<lambda>_.
     and_then (no_effect (if input_content_type \<noteq> ''application/x-npy''
                          then Inl (RuntimeError ''Input content type must be application/x-npy'')
                          else Inr ())) (\<lambda>_.
     and_then (emit np_load_event (np_load sv payload)) (\<lambda>npy_payload.
     and_then (emit nd_array_event (nd_array sv npy_payload)) (\<lambda>inference_payload.
     and_then (mod_forward sv inference_payload) (\<lambda>_.
     and_then (mod_get_outputs_0 sv) (\<lambda>result.
     let result = np_squeeze result in
     and_then (no_effect (np_max_all sv result)) (\<lambda>result_max.
     let result_exp = nd_map (\<lambda>x. np_exp sv (np_subtract sv x result_max)) result;
         result_sum = np_sum sv (data result_exp);
         result = nd_map (\<lambda>x. np_divide sv x result_sum) result_exp;
         output_json = json_dumps_tolist sv result;
         output_content_type = ''application/json''
     in no_effect (Inr (output_json, output_content_type)))))))))"

subsection \<open>Example inputs\<close>

text \<open>
  A dataset directory \<^verbatim>\<open>data\<close> whose subdirectory \<^verbatim>\<open>mnist\<close> holds four labels
  (5, 0, 4, 1) and four images of 28 by 28 pixels, every pixel of value 51.
\<close>

definition example_env :: os_env where
  "example_env =
     \<lparr>os_walk = (\<lambda>p. if p = ''data''
                      then [(''data'', [''mnist''], []),
                            (''data/mnist'', [], [''labels.gz'', ''images.gz''])]
                      else []),
      gzip_contents = (\<lambda>p.
         if p = ''data/mnist/labels.gz'' then Inr ([0, 0, 8, 1, 0, 0, 0, 4] @ [5, 0, 4, 1])
         else if p = ''data/mnist/images.gz''
         then Inr ([0, 0, 8, 3] @ [0, 0, 0, 4] @ [0, 0, 0, 28] @ [0, 0, 0, 28] @ replicate 3136 51)
         else Inl OSError),
      writable = (\<lambda>p. True)\<rparr>"

text \<open>
  A directory \<^verbatim>\<open>d\<close> with a label file of three bytes and no image file.
\<close>

definition truncated_env :: os_env where
  "truncated_env =
     \<lparr>os_walk = (\<lambda>p. if p = ''d'' then [(''d'', [], [''labels.gz''])] else []),
      gzip_contents = (\<lambda>p. if p = ''d/labels.gz'' then Inr [0, 0, 8] else Inl OSError),
      writable = (\<lambda>p. True)\<rparr>"

text \<open>
  A directory \<^verbatim>\<open>d\<close> with a label file that holds no label and an image file whose
  header declares no image, of 5 by 5 pixels, and that holds no pixel.
\<close>

definition empty_env :: os_env where
  "empty_env =
     \<lparr>os_walk = (\<lambda>p. if p = ''d'' then [(''d'', [], [''labels.gz'', ''images.gz''])] else []),
      gzip_contents = (\<lambda>p.
         if p = ''d/labels.gz'' then Inr [0, 0, 8, 1, 0, 0, 0, 0]
         else if p = ''d/images.gz''
         then Inr ([0, 0, 8, 3] @ [0, 0, 0, 0] @ [0, 0, 0, 5] @ [0, 0, 0, 5] @ [])
         else Inl OSError),
      writable = (\<lambda>p. True)\<rparr>"

text \<open>
  A stand-in for the serving framework, to run the inference hook on: the handle counts
  the forward passes, the payload is deserialized into one row of numbers, the model has
  one output of shape \<open>(1, 3)\<close>.  Its numbers are integers and its arithmetic is not
  numpy's; only the control flow of the hook is exercised with it.
\<close>

definition toy_serving :: "(nat, byte list, int) serving" where
  "toy_serving =
     \<lparr>np_load = (\<lambda>payload. Inr payload),
      nd_array = (\<lambda>bs. Inr \<lparr>shape = [1, length bs], data = map uint bs\<rparr>),
      forward = (\<lambda>m batch. (Suc m, None)),
      get_outputs = (\<lambda>m. [\<lparr>shape = [1, 3], data = [2, 0, 1]\<rparr>]),
      np_exp = (\<lambda>x. if x = 0 then 1 else 0),
      np_subtract = (\<lambda>x y. x - y),
      np_divide = (\<lambda>x y. x div y),
      np_max = (\<lambda>xs. fold max xs (hd xs)),
      np_sum = sum_list,
      json_dumps_tolist = (\<lambda>a. ''[1, 0, 0]'')\<rparr>"

definition toy_world :: "nat serve_world" where
  "toy_world = \<lparr>handle = 0, events = []\<rparr>"















text \<open>
  A stand-in for the training framework: iterators are the number of samples they
  hold, a module is the number of epochs it has been trained for, and a module has one
  input, \<^verbatim>\<open>data\<close>, of shape \<open>(100, 1, 28, 28)\<close>.
\<close>

definition toy_mx :: "(nat, nat, rat) mx" where
  "toy_mx =
     \<lparr>NDArrayIter = (\<lambda>x y batch_size shuffle. Inr (length (data y))),
      Module = (\<lambda>sym ctx. Inr 0),
      fit = (\<lambda>m train_iter val_iter kvstore lr batch_size epochs. Inr (m + nat epochs)),
      data_shapes = (\<lambda>m. [(''data'', [100, 1, 28, 28])])\<rparr>"

section \<open>Properties\<close>

subsection \<open>Loading the dataset\<close>

lemma round_half_even_nonneg: "0 \<le> q \<Longrightarrow> 0 \<le> round_half_even q"
  by (auto simp: round_half_even_def Let_def)

lemma round_half_even_le:
  assumes "q \<le> of_int z"
  shows "round_half_even q \<le> z"
proof (cases "q = of_int z")
  case True
  then show ?thesis by (simp add: round_half_even_def)
next
  case False
  with assms have "q < of_int z" by simp
  then have "\<lfloor>q\<rfloor> < z" by (simp add: floor_less_iff)
  then show ?thesis by (auto simp: round_half_even_def Let_def)
qed

lemma round_half_even_error: "\<bar>of_int (round_half_even q) - q\<bar> \<le> 1 / 2"
proof -
  define f where "f = \<lfloor>q\<rfloor>"
  define r where "r = q - of_int f"
  have "of_int f \<le> q" "q < of_int f + 1" unfolding f_def by linarith+
  then have r: "0 \<le> r" "r < 1" unfolding r_def by linarith+
  have q: "q = of_int f + r" by (simp add: r_def)
  have rhe: "round_half_even q =
      (if r < 1 / 2 then f else if 1 / 2 < r then f + 1 else if even f then f else f + 1)"
    by (simp add: round_half_even_def Let_def f_def r_def)
  consider "r < 1 / 2" | "1 / 2 < r" | "r = 1 / 2" by linarith
  then show ?thesis
  proof cases
    case 1
    then have "(of_int (round_half_even q) :: rat) = of_int f" by (simp add: rhe)
    with 1 r show ?thesis unfolding r_def by linarith
  next
    case 2
    then have "(of_int (round_half_even q) :: rat) = of_int f + 1" by (simp add: rhe)
    with 2 r show ?thesis unfolding r_def by linarith
  next
    case 3
    then have "(of_int (round_half_even q) :: rat) = of_int f
             \<or> (of_int (round_half_even q) :: rat) = of_int f + 1"
      by (simp add: rhe)
    with 3 show ?thesis unfolding r_def by linarith
  qed
qed

lemma scaled_round_unit:
  assumes "0 \<le> x" "x \<le> 1"
  shows "0 \<le> (of_int (round_half_even (x * 2 ^ k)) :: rat) / 2 ^ k"
    and "(of_int (round_half_even (x * 2 ^ k)) :: rat) / 2 ^ k \<le> 1"
proof -
  have "0 \<le> x * 2 ^ k" using assms by simp
  then have "0 \<le> round_half_even (x * 2 ^ k)" by (rule round_half_even_nonneg)
  then show "0 \<le> (of_int (round_half_even (x * 2 ^ k)) :: rat) / 2 ^ k" by simp
  have "x * 2 ^ k \<le> of_int (2 ^ k)" using assms by (simp add: mult_left_le_one_le)
  then have "round_half_even (x * 2 ^ k) \<le> 2 ^ k" by (rule round_half_even_le)
  then have "(of_int (round_half_even (x * 2 ^ k)) :: rat) \<le> of_int (2 ^ k)"
    by (simp only: of_int_le_iff)
  then show "(of_int (round_half_even (x * 2 ^ k)) :: rat) / 2 ^ k \<le> 1"
    by (simp add: divide_le_eq)
qed

lemma scaled_round_error:
  "\<bar>(of_int (round_half_even (x * 2 ^ k)) :: rat) / 2 ^ k - x\<bar> \<le> 1 / 2 ^ (k + 1)"
proof -
  have p: "(0 :: rat) < 2 ^ k" by simp
  have "(of_int (round_half_even (x * 2 ^ k)) :: rat) / 2 ^ k - x
          = (of_int (round_half_even (x * 2 ^ k)) - x * 2 ^ k) / 2 ^ k"
    by (simp add: diff_divide_distrib)
  then have "\<bar>(of_int (round_half_even (x * 2 ^ k)) :: rat) / 2 ^ k - x\<bar>
          = \<bar>of_int (round_half_even (x * 2 ^ k)) - x * 2 ^ k\<bar> / 2 ^ k"
    by (simp only: abs_divide) simp
  also have "\<dots> \<le> (1 / 2) / 2 ^ k"
    using round_half_even_error [of "x * 2 ^ k"] p by (simp only: divide_right_mono less_imp_le)
  also have "\<dots> = 1 / 2 ^ (k + 1)" by simp
  finally show ?thesis .
qed

lemma f32_round_unit:
  assumes "0 \<le> x" "x \<le> 1"
  shows "0 \<le> f32_round x \<and> f32_round x \<le> 1"
proof (cases "find (\<lambda>m. 1 \<le> x * 2 ^ m) [0..<127]")
  case None
  then have "f32_round x = of_int (round_half_even (x * 2 ^ 149)) / 2 ^ 149"
    by (simp only: f32_round_def option.case)
  then show ?thesis using scaled_round_unit [OF assms, of 149] by (simp only:)
next
  case (Some m)
  then have "f32_round x = of_int (round_half_even (x * 2 ^ (m + 23))) / 2 ^ (m + 23)"
    by (simp only: f32_round_def option.case)
  then show ?thesis using scaled_round_unit [OF assms, of "m + 23"] by (simp only:)
qed

text \<open>
  The relative error of rounding to float32: at most \<open>2 ^ -24\<close>, for a number that is 0
  or at least \<open>2 ^ -126\<close>.
\<close>

lemma f32_round_error:
  assumes "x = 0 \<or> 1 \<le> x * 2 ^ 126"
  shows "\<bar>f32_round x - x\<bar> \<le> x / 2 ^ 24"
proof (cases "find (\<lambda>m. 1 \<le> x * 2 ^ m) [0..<127]")
  case None
  moreover have "(126 :: nat) \<in> set [0..<127]" by simp
  ultimately have "\<not> 1 \<le> x * 2 ^ 126"
    using find_None_iff [of "\<lambda>m. 1 \<le> x * 2 ^ m" "[0..<127]"] by blast
  with assms have "x = 0" by blast
  moreover have "f32_round x = of_int (round_half_even (x * 2 ^ 149)) / 2 ^ 149"
    using None by (simp only: f32_round_def option.case)
  ultimately show ?thesis by (simp add: round_half_even_def)
next
  case (Some m)
  then have m: "1 \<le> x * 2 ^ m" by (auto simp: find_Some_iff)
  have eq: "f32_round x = of_int (round_half_even (x * 2 ^ (m + 23))) / 2 ^ (m + 23)"
    using Some by (simp only: f32_round_def option.case)
  have "\<bar>f32_round x - x\<bar> \<le> 1 / 2 ^ (m + 23 + 1)"
    unfolding eq by (rule scaled_round_error)
  also have "\<dots> = (1 / 2 ^ m) / 2 ^ 24" by (simp add: power_add)
  also have "\<dots> \<le> x / 2 ^ 24"
  proof (rule divide_right_mono)
    have "(0 :: rat) < 2 ^ m" by simp
    with m show "1 / 2 ^ m \<le> x" by (simp add: divide_le_eq)
  qed simp
  finally show ?thesis .
qed

lemma byte_quotient:
  "(0 :: rat) \<le> of_nat (unat (p :: byte)) / 255" "(of_nat (unat (p :: byte)) :: rat) / 255 \<le> 1"
  "(of_nat (unat (p :: byte)) :: rat) / 255 = 0 \<or> (1 :: rat) \<le> of_nat (unat p) / 255 * 2 ^ 126"
proof -
  have "unat p < 2 ^ 8" using unsigned_less [of p] by simp
  then have "unat p \<le> 255" by simp
  then have "(of_nat (unat p) :: rat) \<le> 255" by (metis of_nat_le_iff of_nat_numeral)
  then show "(of_nat (unat p) :: rat) / 255 \<le> 1" by simp
  show "(0 :: rat) \<le> of_nat (unat p) / 255"
    by (rule divide_nonneg_nonneg [OF of_nat_0_le_iff]) simp
  show "(of_nat (unat p) :: rat) / 255 = 0 \<or> (1 :: rat) \<le> of_nat (unat p) / 255 * 2 ^ 126"
  proof (cases "unat p = 0")
    case True
    then show ?thesis by simp
  next
    case False
    then have "1 \<le> unat p" by simp
    then have "(1 :: rat) \<le> of_nat (unat p)" by (metis of_nat_1 of_nat_le_iff)
    then have "(1 :: rat) / 255 \<le> of_nat (unat p) / 255" by (simp add: divide_right_mono)
    moreover have "(1 :: rat) \<le> 1 / 255 * 2 ^ 126" by simp
    ultimately have "(1 :: rat) \<le> of_nat (unat p) / 255 * 2 ^ 126"
      by (meson mult_right_mono order_trans zero_le_numeral zero_le_power)
    then show ?thesis by blast
  qed
qed

lemma f32_div_255_unit: "0 \<le> f32_div (astype_float32 p) 255 \<and> f32_div (astype_float32 p) 255 \<le> 1"
  unfolding f32_div_def astype_float32_def using byte_quotient(1,2) by (intro f32_round_unit)

lemma f32_div_255_error:
  "\<bar>f32_div (astype_float32 p) 255 - of_nat (unat p) / 255\<bar> \<le> of_nat (unat p) / 255 / 2 ^ 24"
  unfolding f32_div_def astype_float32_def using byte_quotient(3) by (rule f32_round_error)

lemma f32_div_51: "f32_div (astype_float32 51) 255 = 13421773 / 67108864"
  by code_simp

lemma nbytes_mnist:
  "nbytes (Suc 0) [n, 28, 28] = (if n = 0 then 784 else n * 784)"
  "nbytes (Suc 0) [n, Suc 0, 28, 28] = (if n = 0 then 784 else n * 784)"
  "nbytes 4 [n, Suc 0, 28, 28] = (if n = 0 then 3136 else 4 * (n * 784))"
  by (simp_all add: nbytes_def)

lemma max_intp_784: "784 \<le> max_intp" "3136 \<le> max_intp"
  by (simp_all add: max_intp_def)

lemma nbytes_mnist_fits:
  assumes "4 * (n * 784) \<le> max_intp"
  shows "\<not> max_intp < nbytes (Suc 0) [n, 28, 28]"
    and "\<not> max_intp < nbytes (Suc 0) [n, Suc 0, 28, 28]"
    and "\<not> max_intp < nbytes 4 [n, Suc 0, 28, 28]"
  using assms max_intp_784 by (simp_all add: nbytes_mnist)

lemma load_data_opened:
  assumes "gzip_open env (find_file env path ''labels.gz'') = Inr flbl"
      and "gzip_open env (find_file env path ''images.gz'') = Inr fimg"
  shows "load_data env path =
     (if length flbl < 8 then Inl StructError
      else if length fimg < 16 then Inl StructError
      else if (length flbl - 8) * be_uint (take 4 (drop 8 fimg)) * be_uint (take 4 (drop 12 fimg))
               \<noteq> length fimg - 16 then Inl ValueError
      else if max_intp < nbytes 1 [length flbl - 8, be_uint (take 4 (drop 8 fimg)),
                                    be_uint (take 4 (drop 12 fimg))] then Inl ValueError
      else if (length flbl - 8) * 784 \<noteq> length fimg - 16 then Inl ValueError
      else if max_intp < nbytes 1 [length flbl - 8, 1, 28, 28] then Inl ValueError
      else if max_intp < nbytes 4 [length flbl - 8, 1, 28, 28] then Inl ValueError
      else Inr (\<lparr>shape = [length flbl - 8], data = map sint (drop 8 flbl)\<rparr>,
                \<lparr>shape = [length flbl - 8, 1, 28, 28],
                 data = map (\<lambda>p. f32_div (astype_float32 p) 255) (drop 16 fimg)\<rparr>))"
  using assms
  by (simp add: load_data_def on_ok_def struct_unpack_II_def struct_unpack_IIII_def
      np_fromstring_int8_def np_fromstring_uint8_def len_def shape0_def reshape_def nd_map_def
      nd_astype_float32_def comp_def Let_def min_def mult.assoc drop_take)

lemma gzip_open_found:
  "find_file env path name = Some p \<Longrightarrow> gzip_contents env p = Inr bs \<Longrightarrow>
   gzip_open env (find_file env path name) = Inr bs"
  by (simp add: gzip_open_def)

lemma load_data_labels_absent:
  "find_file env path ''labels.gz'' = None \<Longrightarrow> load_data env path = Inl TypeError"
  by (simp add: load_data_def gzip_open_def on_ok_def)

lemma load_data_images_absent:
  assumes "find_file env path ''images.gz'' = None"
  shows "load_data env path =
     (case gzip_open env (find_file env path ''labels.gz'') of
        Inl e \<Rightarrow> Inl e
      | Inr flbl \<Rightarrow> if length flbl < 8 then Inl StructError else Inl TypeError)"
  using assms
  by (simp add: load_data_def gzip_open_def on_ok_def struct_unpack_II_def Let_def min_def
      split: sum.split)

text \<open>
  C2: in a valid dataset directory (both files found and readable, a label file of an
  8-byte header and \<open>N\<close> label bytes, an image file of a 16-byte header that declares 28 rows
  and 28 columns and \<open>N * 784\<close> pixel bytes, of a number that an array of float32 can
  hold),
  \<^verbatim>\<open>load_data\<close> returns a pair of labels and images.  The labels are the bytes after the
  header, read as signed 8-bit integers; the images have the shape \<open>(N, 1, 28, 28)\<close>, whose
  leading dimension is the number of labels; there is one pixel value per pixel byte, it is
  the float32 quotient of the unsigned byte by 255, which differs from the exact quotient
  by at most the relative rounding error \<open>2 ^ -24\<close> of float32, and it lies between 0 and 1.
\<close>

theorem load_data_valid:
  assumes "find_file env path ''labels.gz'' = Some lp"
      and "gzip_contents env lp = Inr (lhdr @ lbl)"
      and "length lhdr = 8"
      and "find_file env path ''images.gz'' = Some ip"
      and "gzip_contents env ip = Inr (magic @ cnt @ rws @ cls @ px)"
      and "length magic = 4" "length cnt = 4" "length rws = 4" "length cls = 4"
      and "be_uint rws = 28" "be_uint cls = 28"
      and "length px = length lbl * 784"
      and "4 * length px \<le> max_intp"
  shows "\<exists>labels images.
           load_data env path = Inr (labels, images)
           \<and> shape labels = [length lbl] \<and> data labels = map sint lbl
           \<and> shape images = [length lbl, 1, 28, 28]
           \<and> hd (shape images) = length (data labels)
           \<and> data images = map (\<lambda>p. f32_div (astype_float32 p) 255) px
           \<and> length (data images) = length px
           \<and> (\<forall>k < length px.
                 \<bar>data images ! k - of_nat (unat (px ! k)) / 255\<bar>
                   \<le> of_nat (unat (px ! k)) / 255 / 2 ^ 24)
           \<and> (\<forall>v \<in> set (data images). 0 \<le> v \<and> v \<le> 1)"
proof -
  have l: "gzip_open env (find_file env path ''labels.gz'') = Inr (lhdr @ lbl)"
    using assms(1,2) by (rule gzip_open_found)
  have i: "gzip_open env (find_file env path ''images.gz'') = Inr (magic @ cnt @ rws @ cls @ px)"
    using assms(4,5) by (rule gzip_open_found)
  have "4 * (length lbl * 784) \<le> max_intp" using assms(12,13) by simp
  note big = nbytes_mnist_fits [OF this]
  have "load_data env path =
          Inr (\<lparr>shape = [length lbl], data = map sint lbl\<rparr>,
               \<lparr>shape = [length lbl, 1, 28, 28],
                data = map (\<lambda>p. f32_div (astype_float32 p) 255) px\<rparr>)"
    using assms(3,6-12) big by (simp add: load_data_opened [OF l i])
  moreover have "\<forall>v \<in> set (map (\<lambda>p. f32_div (astype_float32 p) 255) px). 0 \<le> v \<and> v \<le> 1"
    using f32_div_255_unit by auto
  moreover have "\<forall>k < length px.
      \<bar>map (\<lambda>p. f32_div (astype_float32 p) 255) px ! k - of_nat (unat (px ! k)) / 255\<bar>
        \<le> of_nat (unat (px ! k)) / 255 / 2 ^ 24"
    using f32_div_255_error by simp
  ultimately show ?thesis by simp
qed

lemma example_labels: "find_file example_env ''data'' ''labels.gz'' = Some ''data/mnist/labels.gz''"
  by (simp add: find_file_def example_env_def os_path_join_def)

lemma example_images: "find_file example_env ''data'' ''images.gz'' = Some ''data/mnist/images.gz''"
  by (simp add: find_file_def example_env_def os_path_join_def)

lemma be_uint_28: "be_uint [0, 0, 0, 28] = 28"
  by (simp add: be_uint_def)

lemma example_labels_contents:
  "gzip_contents example_env ''data/mnist/labels.gz'' = Inr ([0, 0, 8, 1, 0, 0, 0, 4] @ [5, 0, 4, 1])"
  by (simp add: example_env_def)

lemma example_images_contents:
  "gzip_contents example_env ''data/mnist/images.gz''
     = Inr ([0, 0, 8, 3] @ [0, 0, 0, 4] @ [0, 0, 0, 28] @ [0, 0, 0, 28] @ replicate 3136 51)"
  by (simp add: example_env_def)

text \<open>
  The example dataset is valid: four labels, four images of shape \<open>(1, 28, 28)\<close>; every
  pixel byte is 51 and every pixel value the float32 nearest to \<open>51 / 255\<close>.
\<close>

theorem load_data_valid_witness:
  "load_data example_env ''data''
     = Inr (\<lparr>shape = [4], data = [5, 0, 4, 1]\<rparr>,
            \<lparr>shape = [4, 1, 28, 28], data = replicate 3136 (13421773 / 67108864)\<rparr>)
   \<and> \<bar>13421773 / 67108864 - (51 :: rat) / 255\<bar> \<le> 51 / 255 / 2 ^ 24
   \<and> (0 :: rat) \<le> 13421773 / 67108864 \<and> (13421773 :: rat) / 67108864 \<le> 1"
proof -
  have h: "length [0, 0, 8, 1, 0, 0, 0, 4 :: byte] = 8" "length [0, 0, 8, 3 :: byte] = 4"
    "length [0, 0, 0, 4 :: byte] = 4" "length [0, 0, 0, 28 :: byte] = 4"
    "length (replicate 3136 (51 :: byte)) = length [5, 0, 4, 1 :: byte] * 784"
    "4 * length (replicate 3136 (51 :: byte)) \<le> max_intp"
    by (simp_all add: max_intp_def)
  note t = load_data_valid [OF example_labels example_labels_contents h(1)
      example_images example_images_contents h(2) h(3) h(4) h(4) be_uint_28 be_uint_28 h(5) h(6)]
  then obtain labels images where
    a: "load_data example_env ''data'' = Inr (labels, images)"
    and b: "shape labels = [length [5, 0, 4, 1 :: byte]]"
    and c: "data labels = map sint [5, 0, 4, 1 :: byte]"
    and d: "shape images = [length [5, 0, 4, 1 :: byte], 1, 28, 28]"
    and e: "data images = map (\<lambda>p. f32_div (astype_float32 p) 255) (replicate 3136 51)"
    by blast
  have "labels = \<lparr>shape = [4], data = [5, 0, 4, 1]\<rparr>"
    using b c by (cases labels) simp
  moreover have "images = \<lparr>shape = [4, 1, 28, 28], data = replicate 3136 (13421773 / 67108864)\<rparr>"
    using d e by (cases images) (simp add: f32_div_51)
  ultimately show ?thesis using a by simp
qed

text \<open>
  C6, as stated, in a directory whose label file has three bytes and that has no image
  file: \<^verbatim>\<open>images.gz\<close> is absent, and \<^verbatim>\<open>load_data\<close> fails on unpacking the label header,
  before it looks for the image file.  The failure is struct.error, not the TypeError that
  \<^verbatim>\<open>gzip.open\<close> raises on the \<open>None\<close> of a file that was not found.
\<close>

theorem load_data_absent_counterexample:
  "find_file truncated_env ''d'' ''images.gz'' = None
   \<and> load_data truncated_env ''d'' = Inl StructError
   \<and> load_data truncated_env ''d'' \<noteq> Inl TypeError"
proof -
  have i: "find_file truncated_env ''d'' ''images.gz'' = None"
    by (simp add: find_file_def truncated_env_def)
  have l: "gzip_open truncated_env (find_file truncated_env ''d'' ''labels.gz'') = Inr [0, 0, 8]"
    by (simp add: find_file_def truncated_env_def gzip_open_def os_path_join_def)
  show ?thesis using i by (simp add: load_data_images_absent l)
qed

text \<open>
  C6, amended: when \<^verbatim>\<open>labels.gz\<close> or \<^verbatim>\<open>images.gz\<close> is absent from the search,
  \<^verbatim>\<open>load_data\<close> fails.  It fails with the TypeError of \<^verbatim>\<open>gzip.open(None)\<close> when
  \<^verbatim>\<open>labels.gz\<close> is absent, and when \<^verbatim>\<open>images.gz\<close> is absent and the label file opens and
  has at least 8 bytes.  When \<^verbatim>\<open>images.gz\<close> is absent and the label file is shorter than
  8 bytes or cannot be read, it fails with the error of the label file (struct.error, or
  the error of opening it).
\<close>

theorem load_data_absent:
  assumes "find_file env path ''labels.gz'' = None \<or> find_file env path ''images.gz'' = None"
  shows "(\<exists>e. load_data env path = Inl e)
       \<and> (find_file env path ''labels.gz'' = None \<longrightarrow> load_data env path = Inl TypeError)
       \<and> (\<forall>flbl. gzip_open env (find_file env path ''labels.gz'') = Inr flbl \<and> 8 \<le> length flbl
             \<longrightarrow> load_data env path = Inl TypeError)
       \<and> (\<forall>flbl. gzip_open env (find_file env path ''labels.gz'') = Inr flbl \<and> length flbl < 8
             \<longrightarrow> load_data env path = Inl StructError)
       \<and> (\<forall>e. gzip_open env (find_file env path ''labels.gz'') = Inl e
             \<longrightarrow> load_data env path = Inl e)"
proof (cases "find_file env path ''labels.gz''")
  case None
  then show ?thesis by (simp add: load_data_labels_absent gzip_open_def)
next
  case (Some lp)
  with assms have "find_file env path ''images.gz'' = None" by simp
  then show ?thesis using Some
    by (auto simp: load_data_images_absent split: sum.split)
qed

text \<open>Both cases occur: a directory without image file, and one without any file.\<close>

theorem load_data_absent_witness:
  "find_file truncated_env ''d'' ''images.gz'' = None
   \<and> find_file truncated_env ''e'' ''labels.gz'' = None
   \<and> (\<exists>e. load_data truncated_env ''d'' = Inl e)
   \<and> load_data truncated_env ''e'' = Inl TypeError"
  using load_data_absent [of truncated_env "''d''"] load_data_absent [of truncated_env "''e''"]
  by (simp add: find_file_def truncated_env_def)

lemma example_labels_opened:
  "gzip_open example_env (find_file example_env ''data'' ''labels.gz'')
     = Inr ([0, 0, 8, 1, 0, 0, 0, 4] @ [5, 0, 4, 1])"
  using example_labels example_labels_contents by (rule gzip_open_found)

lemma example_images_opened:
  "gzip_open example_env (find_file example_env ''data'' ''images.gz'')
     = Inr ([0, 0, 8, 3] @ [0, 0, 0, 4] @ [0, 0, 0, 28] @ [0, 0, 0, 28] @ replicate 3136 51)"
  using example_images example_images_contents by (rule gzip_open_found)

lemma example_loaded:
  "load_data example_env ''data''
     = Inr (\<lparr>shape = [4], data = [5, 0, 4, 1]\<rparr>,
            \<lparr>shape = [4, 1, 28, 28], data = replicate 3136 (f32_div (astype_float32 51) 255)\<rparr>)"
  by (simp add: load_data_opened [OF example_labels_opened example_images_opened] be_uint_28
      nbytes_def max_intp_def)

lemma empty_labels_opened:
  "gzip_open empty_env (find_file empty_env ''d'' ''labels.gz'') = Inr [0, 0, 8, 1, 0, 0, 0, 0]"
  by (simp add: find_file_def empty_env_def gzip_open_def os_path_join_def)

lemma empty_images_opened:
  "gzip_open empty_env (find_file empty_env ''d'' ''images.gz'')
     = Inr ([0, 0, 8, 3] @ [0, 0, 0, 0] @ [0, 0, 0, 5] @ [0, 0, 0, 5] @ [])"
  by (simp add: find_file_def empty_env_def gzip_open_def os_path_join_def)

lemma be_uint_5: "be_uint [0, 0, 0, 5] = 5"
  by (simp add: be_uint_def)

text \<open>
  C10, as stated, on a dataset without labels and without pixels whose image header
  declares 5 rows and 5 columns: \<^verbatim>\<open>load_data\<close> succeeds, and rows times columns is 25.
\<close>

theorem load_data_geometry_counterexample:
  "load_data empty_env ''d''
     = Inr (\<lparr>shape = [0], data = []\<rparr>, \<lparr>shape = [0, 1, 28, 28], data = []\<rparr>)
   \<and> be_uint [0, 0, 0, 5] * be_uint [0, 0, 0, 5] \<noteq> 784"
  by (simp add: load_data_opened [OF empty_labels_opened empty_images_opened] be_uint_5
      nbytes_def max_intp_def)

lemma geometry_arith:
  fixes n r c p :: nat
  shows "(n * r * c = p \<and> n * 784 = p) \<longleftrightarrow> (p = n * r * c \<and> (n = 0 \<or> r * c = 784))"
proof
  assume a: "n * r * c = p \<and> n * 784 = p"
  then have "n * (r * c) = n * 784" by (simp add: mult.assoc)
  then have "n = 0 \<or> r * c = 784" by (simp only: mult_cancel1) blast
  with a show "p = n * r * c \<and> (n = 0 \<or> r * c = 784)" by blast
next
  assume b: "p = n * r * c \<and> (n = 0 \<or> r * c = 784)"
  then have "n * (r * c) = n * 784" by auto
  with b show "n * r * c = p \<and> n * 784 = p" by (simp add: mult.assoc)
qed

text \<open>
  C10, amended: when both files open, the label file has its 8-byte header and the image
  file its 16-byte header, \<^verbatim>\<open>load_data\<close> succeeds only when the number of pixel bytes
  is the label count times rows times columns and, unless there is no label, rows times
  columns is 784; on any other geometry it raises the ValueError of \<^verbatim>\<open>reshape\<close>.  The
  magic number and the image count of the image header (and the header of the label file)
  play no part: with other values there and the same labels, rows, columns and pixels the
  result is the same.
\<close>

theorem load_data_geometry:
  assumes "gzip_open env (find_file env path ''labels.gz'') = Inr (lhdr @ lbl)"
      and "length lhdr = 8"
      and "gzip_open env (find_file env path ''images.gz'') = Inr (magic @ cnt @ rws @ cls @ px)"
      and "length magic = 4" "length cnt = 4" "length rws = 4" "length cls = 4"
  shows "((\<exists>r. load_data env path = Inr r) \<longrightarrow>
            length px = length lbl * be_uint rws * be_uint cls
            \<and> (length lbl = 0 \<or> be_uint rws * be_uint cls = 784))
       \<and> (\<not> (length px = length lbl * be_uint rws * be_uint cls
               \<and> (length lbl = 0 \<or> be_uint rws * be_uint cls = 784))
            \<longrightarrow> load_data env path = Inl ValueError)
       \<and> (\<forall>env' path' lhdr' magic' cnt'.
             gzip_open env' (find_file env' path' ''labels.gz'') = Inr (lhdr' @ lbl)
             \<and> length lhdr' = 8
             \<and> gzip_open env' (find_file env' path' ''images.gz'')
                 = Inr (magic' @ cnt' @ rws @ cls @ px)
             \<and> length magic' = 4 \<and> length cnt' = 4
             \<longrightarrow> load_data env' path' = load_data env path)"
proof -
  let ?n = "length lbl" and ?r = "be_uint rws" and ?c = "be_uint cls"
  let ?result = "if ?n * ?r * ?c \<noteq> length px then Inl ValueError
      else if max_intp < nbytes 1 [?n, ?r, ?c] then Inl ValueError
      else if ?n * 784 \<noteq> length px then Inl ValueError
      else if max_intp < nbytes 1 [?n, 1, 28, 28] then Inl ValueError
      else if max_intp < nbytes 4 [?n, 1, 28, 28] then Inl ValueError
      else Inr (\<lparr>shape = [?n], data = map sint lbl\<rparr>,
                \<lparr>shape = [?n, 1, 28, 28],
                 data = map (\<lambda>p. f32_div (astype_float32 p) 255) px\<rparr>)"
  have eq: "load_data e p = ?result"
    if "gzip_open e (find_file e p ''labels.gz'') = Inr (h @ lbl)" "length h = 8"
       "gzip_open e (find_file e p ''images.gz'') = Inr (m @ k @ rws @ cls @ px)"
       "length m = 4" "length k = 4"
    for e p h m k
    using that(2,4,5) assms(6,7) by (simp add: load_data_opened [OF that(1) that(3)])
  have here: "load_data env path = ?result"
    using assms(1,2,3,4,5) by (rule eq)
  have arith: "(?n * ?r * ?c = length px \<and> ?n * 784 = length px)
       \<longleftrightarrow> (length px = ?n * ?r * ?c \<and> (?n = 0 \<or> ?r * ?c = 784))"
    by (rule geometry_arith)
  have 2: "\<not> (length px = ?n * ?r * ?c \<and> (?n = 0 \<or> ?r * ?c = 784))
            \<longrightarrow> load_data env path = Inl ValueError"
    unfolding arith [symmetric] here by auto
  then have 1: "(\<exists>r. load_data env path = Inr r) \<longrightarrow>
            length px = ?n * ?r * ?c \<and> (?n = 0 \<or> ?r * ?c = 784)"
    by auto
  have 3: "load_data env' path' = load_data env path"
    if "gzip_open env' (find_file env' path' ''labels.gz'') = Inr (lhdr' @ lbl)"
       "length lhdr' = 8"
       "gzip_open env' (find_file env' path' ''images.gz'') = Inr (magic' @ cnt' @ rws @ cls @ px)"
       "length magic' = 4" "length cnt' = 4"
    for env' path' lhdr' magic' cnt'
    using eq [OF that] here by simp
  from 1 2 3 show ?thesis by blast
qed

text \<open>The example dataset loads, and has this geometry.\<close>

theorem load_data_geometry_witness:
  "(\<exists>r. load_data example_env ''data'' = Inr r)
   \<and> length (replicate 3136 (51 :: byte)) = length [5, 0, 4, 1 :: byte] * 28 * 28"
proof -
  have "\<exists>r. load_data example_env ''data'' = Inr r"
    using example_loaded by blast
  then show ?thesis
    using load_data_geometry [OF example_labels_opened _ example_images_opened] be_uint_28
    by simp
qed

subsection \<open>Device selection\<close>

lemma get_training_context_cases:
  "get_training_context n =
     (if 0 < n then ContextList (map gpu [0..n - 1])
      else if n = 0 then SingleContext cpu
      else ContextList [])"
  by (simp add: get_training_context_def py_range_def)

text \<open>
  C8, as stated, at the GPU count \<open>-1\<close>: the count is not positive, and the function
  returns an empty list of GPU contexts, which is not a single CPU context.
\<close>

theorem get_training_context_negative_counterexample:
  "\<not> 0 < (-1 :: int) \<and> get_training_context (-1) = ContextList []
   \<and> get_training_context (-1) \<noteq> SingleContext cpu"
  by (simp add: get_training_context_def py_range_def)

text \<open>
  C8, amended: for every GPU count that is not negative, \<^verbatim>\<open>get_training_context\<close> returns
  one GPU context per index \<open>0, ..., count - 1\<close>, in this order, when the count is positive,
  and the single CPU context when the count is zero.
\<close>

theorem get_training_context_nonneg:
  "0 \<le> n \<Longrightarrow>
     (0 < n \<longrightarrow> get_training_context n = ContextList (map gpu [0..n - 1])
              \<and> length (map gpu [0..n - 1]) = nat n
              \<and> (\<forall>i. 0 \<le> i \<and> i < n \<longrightarrow> map gpu [0..n - 1] ! nat i = gpu i))
     \<and> (n = 0 \<longrightarrow> get_training_context n = SingleContext cpu)"
  by (simp add: get_training_context_cases)

theorem get_training_context_nonneg_witness:
  "(0 :: int) \<le> 2 \<and> get_training_context 2 = ContextList [gpu 0, gpu 1]
   \<and> get_training_context 0 = SingleContext cpu"
  using get_training_context_nonneg [of 2] get_training_context_nonneg [of 0]
  by (simp add: upto_rec1)

subsection \<open>The training driver\<close>

lemma load_data_Inr:
  assumes "load_data env p = Inr (l, i)"
  shows "\<exists>n. shape l = [n] \<and> length (data l) = n \<and> shape i = [n, 1, 28, 28]
             \<and> length (data i) = n * 784"
proof -
  from assms obtain flbl where l: "gzip_open env (find_file env p ''labels.gz'') = Inr flbl"
    by (cases "gzip_open env (find_file env p ''labels.gz'')") (simp_all add: load_data_def on_ok_def)
  have "\<exists>fimg. gzip_open env (find_file env p ''images.gz'') = Inr fimg"
    using assms l
    by (cases "gzip_open env (find_file env p ''images.gz'')")
       (simp_all add: load_data_def on_ok_def Let_def split: sum.splits)
  then obtain fimg where i: "gzip_open env (find_file env p ''images.gz'') = Inr fimg" ..
  show ?thesis
    using assms unfolding load_data_opened [OF l i]
    by (auto split: if_splits)
qed

lemma shard_loop_first:
  "i < length hosts \<Longrightarrow> hosts ! i = h \<Longrightarrow> \<forall>j<i. hosts ! j \<noteq> h \<Longrightarrow>
   shard_loop s k hosts h = Some (s * (k + i), s * (k + i) + s)"
proof (induction hosts arbitrary: i k)
  case Nil
  then show ?case by simp
next
  case (Cons x xs)
  show ?case
  proof (cases i)
    case 0
    with Cons.prems show ?thesis by (simp add: Let_def)
  next
    case (Suc i')
    with Cons.prems have "x \<noteq> h" by auto
    moreover have "shard_loop s (Suc k) xs h = Some (s * (Suc k + i'), s * (Suc k + i') + s)"
      using Cons.prems Suc by (intro Cons.IH) auto
    ultimately show ?thesis using Suc by simp
  qed
qed

lemma shard_loop_None: "shard_loop s k hosts h = None \<longleftrightarrow> h \<notin> set hosts"
  by (induction hosts arbitrary: k) (auto simp: Let_def)

lemma first_position:
  assumes "h \<in> set hosts"
  shows "\<exists>i<length hosts. hosts ! i = h \<and> (\<forall>j<i. hosts ! j \<noteq> h)"
proof -
  from assms obtain ys zs where "hosts = ys @ h # zs" "h \<notin> set ys"
    by (auto dest: split_list_first)
  then have "length ys < length hosts" "hosts ! length ys = h" "\<forall>j<length ys. hosts ! j \<noteq> h"
    by (auto simp: nth_append)
  then show ?thesis by blast
qed

lemma shard_bounds_first:
  assumes "i < length hosts" "hosts ! i = h" "\<forall>j<i. hosts ! j \<noteq> h"
  shows "shard_bounds n hosts h
           = Inr (i * (n div length hosts), (i + 1) * (n div length hosts))"
  using assms shard_loop_first [OF assms, of "n div length hosts" 0]
  by (auto simp: shard_bounds_def Let_def mult.commute)

lemma shard_end_le:
  assumes "i < H"
  shows "(i + 1) * (n div H) \<le> (n :: nat)"
proof -
  have "(i + 1) * (n div H) \<le> H * (n div H)" using assms by (intro mult_le_mono1) simp
  also have "\<dots> \<le> n" by simp
  finally show ?thesis .
qed

lemma shard_bounds_absent:
  "hosts \<noteq> [] \<Longrightarrow> h \<notin> set hosts \<Longrightarrow> shard_bounds n hosts h = Inl UnboundLocalError"
  using shard_loop_None [of "n div length hosts" 0 hosts h]
  by (simp add: shard_bounds_def Let_def)

lemma shard_bounds_member:
  "h \<in> set hosts \<Longrightarrow> \<exists>i<length hosts. hosts ! i = h \<and> (\<forall>j<i. hosts ! j \<noteq> h) \<and>
     shard_bounds n hosts h = Inr (i * (n div length hosts), (i + 1) * (n div length hosts))"
  using first_position shard_bounds_first by metis

lemma nd_slice_exact:
  assumes "shape a = n # inner" "start \<le> stop" "stop \<le> n"
  shows "nd_slice a start stop
     = Inr \<lparr>shape = (stop - start) # inner,
             data = take ((stop - start) * prod_list inner) (drop (start * prod_list inner) (data a))\<rparr>"
  using assms by (simp add: nd_slice_def Let_def min_def)

lemma nd_item_slice:
  assumes "shape a = n # inner" "start \<le> stop" "stop \<le> n" "t < stop - start"
      and "nd_slice a start stop = Inr x"
  shows "nd_item x t = nd_item a (start + t)"
proof -
  let ?k = "prod_list inner"
  have x: "x = \<lparr>shape = (stop - start) # inner,
             data = take ((stop - start) * ?k) (drop (start * ?k) (data a))\<rparr>"
    using nd_slice_exact [OF assms(1-3)] assms(5) by simp
  have "Suc t \<le> stop - start" using assms(4) by simp
  then have "Suc t * ?k \<le> (stop - start) * ?k" by (rule mult_le_mono1)
  then have le: "?k \<le> (stop - start) * ?k - t * ?k" by simp
  have "nd_item x t = take ?k (drop (t * ?k) (take ((stop - start) * ?k) (drop (start * ?k) (data a))))"
    by (simp add: nd_item_def x Let_def)
  also have "\<dots> = take ?k (take ((stop - start) * ?k - t * ?k) (drop (t * ?k) (drop (start * ?k) (data a))))"
    by (simp only: drop_take)
  also have "\<dots> = take ?k (drop (t * ?k + start * ?k) (data a))"
    using le by (simp add: min_def)
  also have "\<dots> = nd_item a (start + t)"
    by (simp add: nd_item_def assms(1) add_mult_distrib add.commute Let_def)
  finally show ?thesis .
qed

lemma ivl_disjoint:
  fixes a b c d :: nat
  shows "b \<le> c \<or> d \<le> a \<Longrightarrow> {a..<b} \<inter> {c..<d} = {}"
  by auto

lemma ivl_below:
  fixes a b c :: nat
  shows "b \<le> c \<Longrightarrow> {a..<b} \<subseteq> {0..<c}"
  by auto

lemma shard_indices_first:
  assumes "i < length hosts" "hosts ! i = h" "\<forall>j<i. hosts ! j \<noteq> h"
  shows "shard_indices n hosts h = {i * (n div length hosts)..<(i + 1) * (n div length hosts)}"
  by (simp only: shard_indices_def shard_bounds_first [OF assms] sum.case prod.case)

lemma shard_indices_absent: "h \<notin> set hosts \<Longrightarrow> shard_indices n hosts h = {}"
proof (cases "hosts = []")
  case True
  then show ?thesis by (simp add: shard_indices_def shard_bounds_def)
next
  case False
  assume "h \<notin> set hosts"
  with False show ?thesis by (simp add: shard_indices_def shard_bounds_absent)
qed

lemma shard_indices_bound: "shard_indices n hosts h \<subseteq> {0..<length hosts * (n div length hosts)}"
proof (cases "h \<in> set hosts")
  case False
  then show ?thesis by (simp add: shard_indices_absent)
next
  case True
  then obtain i where i: "i < length hosts" "hosts ! i = h" "\<forall>j<i. hosts ! j \<noteq> h"
    using first_position [of h hosts] by blast
  from i(1) have "i + 1 \<le> length hosts" by simp
  then have "(i + 1) * (n div length hosts) \<le> length hosts * (n div length hosts)"
    by (rule mult_le_mono1)
  then show ?thesis unfolding shard_indices_first [OF i] by (rule ivl_below)
qed


lemma shard_indices_disjoint:
  assumes "h \<noteq> h'"
  shows "shard_indices n hosts h \<inter> shard_indices n hosts h' = {}"
proof (cases "h \<in> set hosts \<and> h' \<in> set hosts")
  case False
  then have "shard_indices n hosts h = {} \<or> shard_indices n hosts h' = {}"
    using shard_indices_absent by blast
  then show ?thesis by blast
next
  case True
  obtain i where i: "i < length hosts" "hosts ! i = h" "\<forall>j<i. hosts ! j \<noteq> h"
    using True first_position [of h hosts] by blast
  obtain i' where i': "i' < length hosts" "hosts ! i' = h'" "\<forall>j<i'. hosts ! j \<noteq> h'"
    using True first_position [of h' hosts] by blast
  let ?s = "n div length hosts"
  from assms i(2) i'(2) have "i \<noteq> i'" by blast
  then have "i + 1 \<le> i' \<or> i' + 1 \<le> i" by linarith
  then have "(i + 1) * ?s \<le> i' * ?s \<or> (i' + 1) * ?s \<le> i * ?s"
    using mult_le_mono1 [of "i + 1" i' ?s] mult_le_mono1 [of "i' + 1" i ?s] by blast
  then show ?thesis
    unfolding shard_indices_first [OF i] shard_indices_first [OF i'] by (rule ivl_disjoint)
qed

lemma remainder_card: "0 < H \<Longrightarrow> card {H * (n div H)..<n} = n mod H"
  by (simp add: minus_mult_div_eq_mod)


lemma shard_indices_cover:
  assumes "distinct hosts"
  shows "(\<Union>h \<in> set hosts. shard_indices n hosts h) = {0..<length hosts * (n div length hosts)}"
proof
  show "(\<Union>h \<in> set hosts. shard_indices n hosts h) \<subseteq> {0..<length hosts * (n div length hosts)}"
    using shard_indices_bound by blast
next
  let ?s = "n div length hosts"
  show "{0..<length hosts * ?s} \<subseteq> (\<Union>h \<in> set hosts. shard_indices n hosts h)"
  proof
    fix x assume "x \<in> {0..<length hosts * ?s}"
    then have x: "x < length hosts * ?s" by (simp only: atLeastLessThan_iff)
    have s: "0 < ?s"
    proof (rule ccontr)
      assume "\<not> 0 < ?s"
      then have "?s = 0" by simp
      with x show False by simp
    qed
    let ?i = "x div ?s"
    have i: "?i < length hosts" using x by (rule less_mult_imp_div_less)
    have first: "\<forall>j < ?i. hosts ! j \<noteq> hosts ! ?i"
    proof (intro allI impI)
      fix j assume "j < ?i"
      then have "j < length hosts" "j \<noteq> ?i" using i by simp_all
      with assms i show "hosts ! j \<noteq> hosts ! ?i" by (simp only: nth_eq_iff_index_eq not_False_eq_True)
    qed
    have lo: "?i * ?s \<le> x" by (rule div_times_less_eq_dividend)
    have "x < ?s + ?i * ?s" using s by (rule dividend_less_div_times)
    then have hi: "x < (?i + 1) * ?s" by (simp only: add_mult_distrib mult_1 add.commute)
    have "x \<in> {?i * ?s..<(?i + 1) * ?s}" using lo hi by (simp only: atLeastLessThan_iff simp_thms)
    then have "x \<in> shard_indices n hosts (hosts ! ?i)"
      by (simp only: shard_indices_first [OF i refl first])
    moreover have "hosts ! ?i \<in> set hosts" using i by (rule nth_mem)
    ultimately show "x \<in> (\<Union>h \<in> set hosts. shard_indices n hosts h)" by blast
  qed
qed

lemmas train_defs = train_def and_then_def no_effect_def call_def save_def write_file_def
  mx_io_NDArrayIter_def mx_mod_Module_def Module_fit_def
  first_host_def len_def

lemma train_shard_error:
  assumes "load_data env training_channel = Inr (train_labels, train_images)"
      and "load_data env testing_channel = Inr (test_labels, test_images)"
      and "shape train_images = n # inner"
      and "shard_bounds n hosts current_host = Inl e"
  shows "train env fw batch_size epochs learning_rate num_gpus training_channel testing_channel
           hosts current_host model_dir w = (w, Inl e)"
  using assms by (simp add: train_defs)

lemma train_first_call:
  assumes "load_data env training_channel = Inr (train_labels, train_images)"
      and "load_data env testing_channel = Inr (test_labels, test_images)"
      and "shape train_images = n # inner"
      and "shard_bounds n hosts current_host = Inr (start, stop)"
      and "nd_slice train_images start stop = Inr shard_images"
      and "nd_slice train_labels start stop = Inr shard_labels"
  shows "\<exists>rest. calls (fst (train env fw batch_size epochs learning_rate num_gpus training_channel
           testing_channel hosts current_host model_dir world0))
           = NDArrayIter_call shard_images shard_labels batch_size True # rest"
  using assms
  by (simp add: train_defs world0_def Let_def split: sum.splits prod.splits list.splits)

lemma train_fit_call:
  assumes "load_data env training_channel = Inr (train_labels, train_images)"
      and "load_data env testing_channel = Inr (test_labels, test_images)"
      and "shape train_images = n # inner"
      and "shard_bounds n hosts current_host = Inr (start, stop)"
      and "nd_slice train_images start stop = Inr shard_images"
      and "nd_slice train_labels start stop = Inr shard_labels"
      and "NDArrayIter fw shard_images shard_labels batch_size True = Inr train_iter"
      and "NDArrayIter fw test_images test_labels batch_size False = Inr val_iter"
      and "Module fw build_graph (get_training_context num_gpus) = Inr mlp_model"
  shows "(\<exists>rest. calls (fst (train env fw batch_size epochs learning_rate num_gpus training_channel
           testing_channel hosts current_host model_dir world0))
           = [NDArrayIter_call shard_images shard_labels batch_size True,
              NDArrayIter_call test_images test_labels batch_size False,
              setLevel_call,
              Module_call build_graph (get_training_context num_gpus),
              fit_call mlp_model train_iter val_iter
                (if length hosts = 1 then ''local'' else ''dist_sync'')
                learning_rate batch_size epochs] @ rest
         \<and> set rest \<subseteq> {save_call model_dir})
       \<and> (\<forall>err. fit fw mlp_model train_iter val_iter
                 (if length hosts = 1 then ''local'' else ''dist_sync'')
                 learning_rate batch_size epochs = Inl err
             \<longrightarrow> snd (train env fw batch_size epochs learning_rate num_gpus training_channel
                   testing_channel hosts current_host model_dir world0) = Inl err)
       \<and> (\<forall>fitted. fit fw mlp_model train_iter val_iter
                 (if length hosts = 1 then ''local'' else ''dist_sync'')
                 learning_rate batch_size epochs = Inr fitted
             \<longrightarrow> snd ` set (written (fst (train env fw batch_size epochs learning_rate num_gpus
                   training_channel testing_channel hosts current_host model_dir world0)))
                   \<subseteq> {symbol_json fitted, params fitted, shapes_json (data_shapes fw fitted)})"
  using assms
  by (auto simp: train_defs world0_def Let_def split: sum.splits prod.splits list.splits)

lemma train_written_not_leader:
  assumes "hosts = [] \<or> current_host \<noteq> hosts ! 0"
  shows "written (fst (train env fw batch_size epochs learning_rate num_gpus training_channel
           testing_channel hosts current_host model_dir world0)) = []
       \<and> save_call model_dir \<notin> set (calls (fst (train env fw batch_size epochs learning_rate
           num_gpus training_channel testing_channel hosts current_host model_dir world0)))"
  using assms
  by (auto simp: train_defs world0_def Let_def split: sum.splits prod.splits list.splits)

lemma train_returns:
  assumes "train env fw batch_size epochs learning_rate num_gpus training_channel
           testing_channel hosts current_host model_dir world0 = (w, Inr ())"
  shows "hosts \<noteq> []
       \<and> (current_host = hosts ! 0 \<longleftrightarrow> save_call model_dir \<in> set (calls w))
       \<and> map fst (written w) =
           (if current_host = hosts ! 0
            then [os_path_join model_dir ''model-symbol.json'',
                  os_path_join model_dir ''model-0000.params'',
                  os_path_join model_dir ''model-shapes.json'']
            else [])"
  using assms
  by (auto simp: train_defs world0_def Let_def shard_bounds_def
      split: sum.splits prod.splits list.splits if_splits)

lemma example_len:
  "len \<lparr>shape = [4, 1, 28, 28], data = replicate 3136 (f32_div (astype_float32 51) 255)\<rparr> = Inr 4"
  by (simp add: len_def)

lemma Suc_Suc_0: "Suc (Suc 0) = 2"
  by simp

lemma example_writable: "writable example_env p"
  by (simp add: example_env_def)

lemma example_bounds:
  "shard_bounds 4 [''algo-1'', ''algo-2''] ''algo-1'' = Inr (0, 2)"
  "shard_bounds 4 [''algo-1'', ''algo-2''] ''algo-2'' = Inr (2, 4)"
  "shard_bounds 4 [''algo-1'', ''algo-1''] ''algo-1'' = Inr (0, 2)"
  "shard_bounds 4 [''algo-1'', ''algo-2''] ''algo-3'' = Inl UnboundLocalError"
  "shard_bounds 4 [] ''algo-1'' = Inl ZeroDivisionError"
  by (simp_all add: shard_bounds_def Let_def Suc_Suc_0)

lemma example_slices:
  "nd_slice \<lparr>shape = [4, Suc 0, 28, 28], data = replicate 3136 (p :: float32)\<rparr> 2 4
     = Inr \<lparr>shape = [2, 1, 28, 28], data = replicate 1568 p\<rparr>"
  "nd_slice \<lparr>shape = [4, Suc 0, 28, 28], data = replicate 3136 (p :: float32)\<rparr> 0 2
     = Inr \<lparr>shape = [2, 1, 28, 28], data = replicate 1568 p\<rparr>"
  "nd_slice \<lparr>shape = [4], data = [5, 0, 4, 1 :: int]\<rparr> 2 4 = Inr \<lparr>shape = [2], data = [4, 1]\<rparr>"
  "nd_slice \<lparr>shape = [4], data = [5, 0, 4, 1 :: int]\<rparr> 0 2 = Inr \<lparr>shape = [2], data = [5, 0]\<rparr>"
  by (simp_all add: nd_slice_def Let_def)

lemmas example_defs = example_loaded example_len example_bounds example_slices toy_mx_def
  world0_def get_training_context_def Suc_Suc_0

lemma example_train_worker:
  "train example_env toy_mx 100 10 (1 / 10) 0 ''data'' ''data''
     [''algo-1'', ''algo-2''] ''algo-2'' ''/opt/ml/model'' world0
   = (\<lparr>calls =
        [NDArrayIter_call
           \<lparr>shape = [2, 1, 28, 28], data = replicate 1568 (f32_div (astype_float32 51) 255)\<rparr>
           \<lparr>shape = [2], data = [4, 1]\<rparr> 100 True,
         NDArrayIter_call
           \<lparr>shape = [4, 1, 28, 28], data = replicate 3136 (f32_div (astype_float32 51) 255)\<rparr>
           \<lparr>shape = [4], data = [5, 0, 4, 1]\<rparr> 100 False,
         setLevel_call,
         Module_call build_graph (SingleContext cpu),
         fit_call 0 2 4 ''dist_sync'' (1 / 10) 100 10],
       written = []\<rparr>, Inr ())"
  by (simp add: train_defs example_defs)

lemma example_train_leader:
  "train example_env toy_mx 100 10 (1 / 10) 0 ''data'' ''data''
     [''algo-1'', ''algo-2''] ''algo-1'' ''/opt/ml/model'' world0
   = (\<lparr>calls =
        [NDArrayIter_call
           \<lparr>shape = [2, 1, 28, 28], data = replicate 1568 (f32_div (astype_float32 51) 255)\<rparr>
           \<lparr>shape = [2], data = [5, 0]\<rparr> 100 True,
         NDArrayIter_call
           \<lparr>shape = [4, 1, 28, 28], data = replicate 3136 (f32_div (astype_float32 51) 255)\<rparr>
           \<lparr>shape = [4], data = [5, 0, 4, 1]\<rparr> 100 False,
         setLevel_call,
         Module_call build_graph (SingleContext cpu),
         fit_call 0 2 4 ''dist_sync'' (1 / 10) 100 10,
         save_call ''/opt/ml/model''],
       written =
        [(''/opt/ml/model/model-symbol.json'', symbol_json 10),
         (''/opt/ml/model/model-0000.params'', params 10),
         (''/opt/ml/model/model-shapes.json'', shapes_json [(''data'', [100, 1, 28, 28])])]\<rparr>,
      Inr ())"
  by (simp add: train_defs example_defs example_writable os_path_join_def)

text \<open>
  C1, amended: let the training set have \<open>N\<close> samples, let the hosts list have length \<open>H\<close>
  and let \<open>i\<close> be the first position of \<^verbatim>\<open>current_host\<close> in it (its only position when
  the hosts are pairwise distinct).  Then \<^verbatim>\<open>train\<close> computes the shard size \<open>N div H\<close> and
  the bounds \<open>i * shard_size\<close> and \<open>(i + 1) * shard_size\<close>, which lie within the training
  set; the first call it makes into the framework builds the training iterator on exactly
  the images and labels of that index range; and when the iterators and the module are
  built, its one call of \<^verbatim>\<open>fit\<close> is on that training iterator (with the iterator on the
  whole test set for validation), followed by nothing but the save.  The shards of
  distinct hosts are disjoint; when the hosts are pairwise distinct the shards of all
  hosts together are the \<open>H * (N div H)\<close> first samples; and the last \<open>N mod H\<close> samples
  are in no shard.
\<close>

theorem train_shard:
  assumes tr: "load_data env training_channel = Inr (train_labels, train_images)"
      and te: "load_data env testing_channel = Inr (test_labels, test_images)"
      and N: "len train_images = Inr N"
      and i: "i < length hosts" "hosts ! i = current_host" "\<forall>j<i. hosts ! j \<noteq> current_host"
  shows "let H = length hosts; shard_size = N div H in
       (\<exists>shard_images shard_labels rest.
           calls (fst (train env fw batch_size epochs learning_rate num_gpus training_channel
                    testing_channel hosts current_host model_dir world0))
             = NDArrayIter_call shard_images shard_labels batch_size True # rest
           \<and> shape shard_images = [shard_size, 1, 28, 28]
           \<and> shape shard_labels = [shard_size]
           \<and> (\<forall>t < shard_size. nd_item shard_images t = nd_item train_images (i * shard_size + t))
           \<and> (\<forall>t < shard_size. nd_item shard_labels t = nd_item train_labels (i * shard_size + t))
           \<and> (\<forall>train_iter val_iter mlp_model.
                 NDArrayIter fw shard_images shard_labels batch_size True = Inr train_iter
                 \<and> NDArrayIter fw test_images test_labels batch_size False = Inr val_iter
                 \<and> Module fw build_graph (get_training_context num_gpus) = Inr mlp_model
                 \<longrightarrow> (\<exists>saves.
                        calls (fst (train env fw batch_size epochs learning_rate num_gpus
                                 training_channel testing_channel hosts current_host model_dir world0))
                          = [NDArrayIter_call shard_images shard_labels batch_size True,
                             NDArrayIter_call test_images test_labels batch_size False,
                             setLevel_call,
                             Module_call build_graph (get_training_context num_gpus),
                             fit_call mlp_model train_iter val_iter
                               (if H = 1 then ''local'' else ''dist_sync'')
                               learning_rate batch_size epochs] @ saves
                        \<and> set saves \<subseteq> {save_call model_dir})
                   \<and> (\<forall>err. fit fw mlp_model train_iter val_iter
                             (if H = 1 then ''local'' else ''dist_sync'')
                             learning_rate batch_size epochs = Inl err
                         \<longrightarrow> snd (train env fw batch_size epochs learning_rate num_gpus
                               training_channel testing_channel hosts current_host model_dir world0)
                               = Inl err)
                   \<and> (\<forall>fitted. fit fw mlp_model train_iter val_iter
                             (if H = 1 then ''local'' else ''dist_sync'')
                             learning_rate batch_size epochs = Inr fitted
                         \<longrightarrow> snd ` set (written (fst (train env fw batch_size epochs learning_rate
                               num_gpus training_channel testing_channel hosts current_host
                               model_dir world0)))
                               \<subseteq> {symbol_json fitted, params fitted,
                                    shapes_json (data_shapes fw fitted)})))
       \<and> shard_bounds N hosts current_host = Inr (i * shard_size, (i + 1) * shard_size)
       \<and> (i + 1) * shard_size \<le> N
       \<and> (\<forall>h h'. h \<noteq> h' \<longrightarrow> shard_indices N hosts h \<inter> shard_indices N hosts h' = {})
       \<and> (distinct hosts \<longrightarrow>
             (\<Union>h \<in> set hosts. shard_indices N hosts h) = {0..<H * shard_size}
             \<and> card (\<Union>h \<in> set hosts. shard_indices N hosts h) = H * shard_size)
       \<and> (\<forall>h. shard_indices N hosts h \<inter> {H * shard_size..<N} = {})
       \<and> card {H * shard_size..<N} = N mod H"
proof -
  let ?H = "length hosts"
  let ?s = "N div ?H"
  let ?R = "train env fw batch_size epochs learning_rate num_gpus training_channel
              testing_channel hosts current_host model_dir world0"
  from load_data_Inr [OF tr] obtain n where n: "shape train_labels = [n]"
      "shape train_images = [n, 1, 28, 28]" by blast
  with N have nN: "n = N" by (simp add: len_def)
  have shi: "shape train_images = N # [1, 28, 28]" and shl: "shape train_labels = N # []"
    using n nN by simp_all
  have sb: "shard_bounds N hosts current_host = Inr (i * ?s, (i + 1) * ?s)"
    using i by (rule shard_bounds_first)
  have le: "(i + 1) * ?s \<le> N" using i(1) by (rule shard_end_le)
  have lo: "i * ?s \<le> (i + 1) * ?s" by simp
  have width: "(i + 1) * ?s - i * ?s = ?s" by simp
  obtain X where X: "nd_slice train_images (i * ?s) ((i + 1) * ?s) = Inr X"
    using nd_slice_exact [OF shi lo le] by blast
  obtain Y where Y: "nd_slice train_labels (i * ?s) ((i + 1) * ?s) = Inr Y"
    using nd_slice_exact [OF shl lo le] by blast
  have shX: "shape X = [?s, 1, 28, 28]"
    using X unfolding nd_slice_exact [OF shi lo le] width by auto
  have shY: "shape Y = [?s]"
    using Y unfolding nd_slice_exact [OF shl lo le] width by auto
  have itX: "\<forall>t < ?s. nd_item X t = nd_item train_images (i * ?s + t)"
    using nd_item_slice [OF shi lo le _ X] width by simp
  have itY: "\<forall>t < ?s. nd_item Y t = nd_item train_labels (i * ?s + t)"
    using nd_item_slice [OF shl lo le _ Y] width by simp
  obtain rest where "calls (fst ?R) = NDArrayIter_call X Y batch_size True # rest"
    using train_first_call [OF tr te shi sb X Y, where fw = fw and batch_size = batch_size
        and epochs = epochs and learning_rate = learning_rate and num_gpus = num_gpus
        and model_dir = model_dir] by blast
  moreover have "\<forall>train_iter val_iter mlp_model.
        NDArrayIter fw X Y batch_size True = Inr train_iter
        \<and> NDArrayIter fw test_images test_labels batch_size False = Inr val_iter
        \<and> Module fw build_graph (get_training_context num_gpus) = Inr mlp_model
        \<longrightarrow> (\<exists>saves. calls (fst ?R)
                = [NDArrayIter_call X Y batch_size True,
                   NDArrayIter_call test_images test_labels batch_size False,
                   setLevel_call,
                   Module_call build_graph (get_training_context num_gpus),
                   fit_call mlp_model train_iter val_iter
                     (if ?H = 1 then ''local'' else ''dist_sync'')
                     learning_rate batch_size epochs] @ saves
              \<and> set saves \<subseteq> {save_call model_dir})
            \<and> (\<forall>err. fit fw mlp_model train_iter val_iter
                      (if ?H = 1 then ''local'' else ''dist_sync'')
                      learning_rate batch_size epochs = Inl err
                  \<longrightarrow> snd ?R = Inl err)
            \<and> (\<forall>fitted. fit fw mlp_model train_iter val_iter
                      (if ?H = 1 then ''local'' else ''dist_sync'')
                      learning_rate batch_size epochs = Inr fitted
                  \<longrightarrow> snd ` set (written (fst ?R))
                        \<subseteq> {symbol_json fitted, params fitted,
                             shapes_json (data_shapes fw fitted)})"
  proof (intro allI impI, elim conjE)
    fix train_iter val_iter mlp_model
    assume "NDArrayIter fw X Y batch_size True = Inr train_iter"
      and "NDArrayIter fw test_images test_labels batch_size False = Inr val_iter"
      and "Module fw build_graph (get_training_context num_gpus) = Inr mlp_model"
    then show "(\<exists>saves. calls (fst ?R)
                = [NDArrayIter_call X Y batch_size True,
                   NDArrayIter_call test_images test_labels batch_size False,
                   setLevel_call,
                   Module_call build_graph (get_training_context num_gpus),
                   fit_call mlp_model train_iter val_iter
                     (if ?H = 1 then ''local'' else ''dist_sync'')
                     learning_rate batch_size epochs] @ saves
              \<and> set saves \<subseteq> {save_call model_dir})
            \<and> (\<forall>err. fit fw mlp_model train_iter val_iter
                      (if ?H = 1 then ''local'' else ''dist_sync'')
                      learning_rate batch_size epochs = Inl err
                  \<longrightarrow> snd ?R = Inl err)
            \<and> (\<forall>fitted. fit fw mlp_model train_iter val_iter
                      (if ?H = 1 then ''local'' else ''dist_sync'')
                      learning_rate batch_size epochs = Inr fitted
                  \<longrightarrow> snd ` set (written (fst ?R))
                        \<subseteq> {symbol_json fitted, params fitted,
                             shapes_json (data_shapes fw fitted)})"
      by (rule train_fit_call [OF tr te shi sb X Y])
  qed
  ultimately have 1: "\<exists>shard_images shard_labels rest.
           calls (fst ?R) = NDArrayIter_call shard_images shard_labels batch_size True # rest
           \<and> shape shard_images = [?s, 1, 28, 28]
           \<and> shape shard_labels = [?s]
           \<and> (\<forall>t< ?s. nd_item shard_images t = nd_item train_images (i * ?s + t))
           \<and> (\<forall>t< ?s. nd_item shard_labels t = nd_item train_labels (i * ?s + t))
           \<and> (\<forall>train_iter val_iter mlp_model.
                 NDArrayIter fw shard_images shard_labels batch_size True = Inr train_iter
                 \<and> NDArrayIter fw test_images test_labels batch_size False = Inr val_iter
                 \<and> Module fw build_graph (get_training_context num_gpus) = Inr mlp_model
                 \<longrightarrow> (\<exists>saves. calls (fst ?R)
                        = [NDArrayIter_call shard_images shard_labels batch_size True,
                           NDArrayIter_call test_images test_labels batch_size False,
                           setLevel_call,
                           Module_call build_graph (get_training_context num_gpus),
                           fit_call mlp_model train_iter val_iter
                             (if ?H = 1 then ''local'' else ''dist_sync'')
                             learning_rate batch_size epochs] @ saves
                      \<and> set saves \<subseteq> {save_call model_dir})
            \<and> (\<forall>err. fit fw mlp_model train_iter val_iter
                      (if ?H = 1 then ''local'' else ''dist_sync'')
                      learning_rate batch_size epochs = Inl err
                  \<longrightarrow> snd ?R = Inl err)
            \<and> (\<forall>fitted. fit fw mlp_model train_iter val_iter
                      (if ?H = 1 then ''local'' else ''dist_sync'')
                      learning_rate batch_size epochs = Inr fitted
                  \<longrightarrow> snd ` set (written (fst ?R))
                        \<subseteq> {symbol_json fitted, params fitted,
                             shapes_json (data_shapes fw fitted)}))"
    using shX shY itX itY by blast
  have 2: "\<forall>h h'. h \<noteq> h' \<longrightarrow> shard_indices N hosts h \<inter> shard_indices N hosts h' = {}"
    using shard_indices_disjoint by blast
  have 3: "distinct hosts \<longrightarrow>
             (\<Union>h \<in> set hosts. shard_indices N hosts h) = {0..< ?H * ?s}
             \<and> card (\<Union>h \<in> set hosts. shard_indices N hosts h) = ?H * ?s"
  proof
    assume "distinct hosts"
    then have "(\<Union>h \<in> set hosts. shard_indices N hosts h) = {0..< ?H * ?s}"
      by (rule shard_indices_cover)
    then show "(\<Union>h \<in> set hosts. shard_indices N hosts h) = {0..< ?H * ?s}
             \<and> card (\<Union>h \<in> set hosts. shard_indices N hosts h) = ?H * ?s"
      by simp
  qed
  have 4: "\<forall>h. shard_indices N hosts h \<inter> {?H * ?s..<N} = {}"
  proof
    fix h
    have "shard_indices N hosts h \<subseteq> {0..< ?H * ?s}" by (rule shard_indices_bound)
    moreover have "{0..< ?H * ?s} \<inter> {?H * ?s..<N} = {}" by (rule ivl_disjoint) simp
    ultimately show "shard_indices N hosts h \<inter> {?H * ?s..<N} = {}" by blast
  qed
  have 5: "card {?H * ?s..<N} = N mod ?H"
  proof (rule remainder_card)
    show "0 < ?H" using i(1) by (cases hosts) simp_all
  qed
  from 1 sb le 2 3 4 5 show ?thesis unfolding Let_def by blast
qed

text \<open>
  The second of two hosts, on the example dataset of four samples, trains on the samples
  2 and 3: the training iterator is built on them, and \<^verbatim>\<open>fit\<close> is called on that iterator
  (of 2 samples) and the validation iterator (of 4 samples).
\<close>

theorem train_shard_witness:
  "shard_bounds 4 [''algo-1'', ''algo-2''] ''algo-2'' = Inr (1 * (4 div 2), (1 + 1) * (4 div 2))
   \<and> calls (fst (train example_env toy_mx 100 10 (1 / 10) 0 ''data'' ''data''
                  [''algo-1'', ''algo-2''] ''algo-2'' ''/opt/ml/model'' world0)) ! 0
       = NDArrayIter_call
           \<lparr>shape = [2, 1, 28, 28], data = replicate 1568 (f32_div (astype_float32 51) 255)\<rparr>
           \<lparr>shape = [2], data = [4, 1]\<rparr> 100 True
   \<and> NDArrayIter toy_mx
         \<lparr>shape = [2, 1, 28, 28], data = replicate 1568 (f32_div (astype_float32 51) 255)\<rparr>
         \<lparr>shape = [2], data = [4, 1]\<rparr> 100 True = Inr 2
   \<and> calls (fst (train example_env toy_mx 100 10 (1 / 10) 0 ''data'' ''data''
                  [''algo-1'', ''algo-2''] ''algo-2'' ''/opt/ml/model'' world0)) ! 4
       = fit_call 0 2 4 ''dist_sync'' (1 / 10) 100 10"
proof -
  have h1: "1 < length [''algo-1'', ''algo-2'']" by simp
  have h2: "[''algo-1'', ''algo-2''] ! 1 = ''algo-2''" by simp
  have h3: "\<forall>j<1. [''algo-1'', ''algo-2''] ! j \<noteq> ''algo-2''" by simp
  note t = train_shard [OF example_loaded example_loaded example_len h1 h2 h3,
      where fw = toy_mx and batch_size = 100 and epochs = 10 and learning_rate = "1 / 10"
        and num_gpus = 0 and model_dir = "''/opt/ml/model''", unfolded Let_def]
  note t2 = t [THEN conjunct2, THEN conjunct1]
  have "length [''algo-1'', ''algo-2''] = 2" by simp
  with t2 have "shard_bounds 4 [''algo-1'', ''algo-2''] ''algo-2''
                  = Inr (1 * (4 div 2), (1 + 1) * (4 div 2))"
    by (simp only:)
  moreover have "NDArrayIter toy_mx
         \<lparr>shape = [2, 1, 28, 28], data = replicate 1568 (f32_div (astype_float32 51) 255)\<rparr>
         \<lparr>shape = [2], data = [4, 1]\<rparr> 100 True = Inr 2"
    by (simp add: toy_mx_def)
  ultimately show ?thesis by (simp add: example_train_worker)
qed

text \<open>
  C1, as stated, for a hosts list that names the same host twice: \<^verbatim>\<open>current_host\<close> is at
  position 1, the training set has four samples, and \<^verbatim>\<open>train\<close> builds the training
  iterator on the samples 0 and 1 (labels 5 and 0), not on the index range from
  \<open>1 * (4 div 2)\<close> to \<open>(1 + 1) * (4 div 2)\<close> (labels 4 and 1).
\<close>

theorem train_shard_counterexample:
  "[''algo-1'', ''algo-1''] ! 1 = ''algo-1''
   \<and> len \<lparr>shape = [4, 1, 28, 28], data = replicate 3136 (f32_div (astype_float32 51) 255)\<rparr> = Inr 4
   \<and> shard_bounds 4 [''algo-1'', ''algo-1''] ''algo-1'' = Inr (0, 2)
   \<and> shard_bounds 4 [''algo-1'', ''algo-1''] ''algo-1'' \<noteq> Inr (1 * (4 div 2), (1 + 1) * (4 div 2))
   \<and> calls (fst (train example_env toy_mx 100 10 (1 / 10) 0 ''data'' ''data''
                  [''algo-1'', ''algo-1''] ''algo-1'' ''/opt/ml/model'' world0)) ! 0
       = NDArrayIter_call
           \<lparr>shape = [2, 1, 28, 28], data = replicate 1568 (f32_div (astype_float32 51) 255)\<rparr>
           \<lparr>shape = [2], data = [5, 0]\<rparr> 100 True
   \<and> nd_slice \<lparr>shape = [4], data = [5, 0, 4, 1 :: int]\<rparr> (1 * (4 div 2)) ((1 + 1) * (4 div 2))
       = Inr \<lparr>shape = [2], data = [4, 1]\<rparr>"
  by (simp add: train_defs example_defs example_writable os_path_join_def)


text \<open>
  C5: \<^verbatim>\<open>train\<close> runs the save step only on the leader: when \<^verbatim>\<open>current_host\<close> is not
  \<^verbatim>\<open>hosts[0]\<close>, no file is written and \<^verbatim>\<open>save\<close> is not called, however the run ends.
  In a run that returns, the hosts list is not empty, \<^verbatim>\<open>save\<close> is called if and only if
  \<^verbatim>\<open>current_host\<close> is \<^verbatim>\<open>hosts[0]\<close>, and the files written are, on the leader, exactly
  \<^verbatim>\<open>model-symbol.json\<close>, \<^verbatim>\<open>model-0000.params\<close> and \<^verbatim>\<open>model-shapes.json\<close> in the model
  directory, and none on any other host.
\<close>

theorem train_save_gating:
  "(hosts = [] \<or> current_host \<noteq> hosts ! 0 \<longrightarrow>
      written (fst (train env fw batch_size epochs learning_rate num_gpus training_channel
                testing_channel hosts current_host model_dir world0)) = []
      \<and> save_call model_dir \<notin> set (calls (fst (train env fw batch_size epochs learning_rate
                num_gpus training_channel testing_channel hosts current_host model_dir world0))))
   \<and> (\<forall>w. train env fw batch_size epochs learning_rate num_gpus training_channel
                testing_channel hosts current_host model_dir world0 = (w, Inr ()) \<longrightarrow>
          hosts \<noteq> []
          \<and> (current_host = hosts ! 0 \<longleftrightarrow> save_call model_dir \<in> set (calls w))
          \<and> map fst (written w) =
               (if current_host = hosts ! 0
                then [os_path_join model_dir ''model-symbol.json'',
                      os_path_join model_dir ''model-0000.params'',
                      os_path_join model_dir ''model-shapes.json'']
                else []))"
  using train_written_not_leader [of hosts current_host env fw batch_size epochs learning_rate
      num_gpus training_channel testing_channel model_dir]
    train_returns [of env fw batch_size epochs learning_rate num_gpus training_channel
      testing_channel hosts current_host model_dir]
  by blast

text \<open>
  On the example dataset with two hosts, the run of the first host returns and writes the
  three files; the run of the second host returns and writes none.
\<close>

theorem train_save_gating_witness:
  "map fst (written (fst (train example_env toy_mx 100 10 (1 / 10) 0 ''data'' ''data''
       [''algo-1'', ''algo-2''] ''algo-1'' ''/opt/ml/model'' world0)))
     = [''/opt/ml/model/model-symbol.json'', ''/opt/ml/model/model-0000.params'',
        ''/opt/ml/model/model-shapes.json'']
   \<and> snd (train example_env toy_mx 100 10 (1 / 10) 0 ''data'' ''data''
       [''algo-1'', ''algo-2''] ''algo-1'' ''/opt/ml/model'' world0) = Inr ()
   \<and> written (fst (train example_env toy_mx 100 10 (1 / 10) 0 ''data'' ''data''
       [''algo-1'', ''algo-2''] ''algo-2'' ''/opt/ml/model'' world0)) = []
   \<and> snd (train example_env toy_mx 100 10 (1 / 10) 0 ''data'' ''data''
       [''algo-1'', ''algo-2''] ''algo-2'' ''/opt/ml/model'' world0) = Inr ()"
proof -
  note leader = train_save_gating [of "[''algo-1'', ''algo-2'']" "''algo-1''" example_env toy_mx
      100 10 "1 / 10" 0 "''data''" "''data''" "''/opt/ml/model''", THEN conjunct2, rule_format,
      OF example_train_leader]
  note worker = train_save_gating [of "[''algo-1'', ''algo-2'']" "''algo-2''" example_env toy_mx
      100 10 "1 / 10" 0 "''data''" "''data''" "''/opt/ml/model''", THEN conjunct1]
  from leader have "map fst (written (fst (train example_env toy_mx 100 10 (1 / 10) 0 ''data''
       ''data'' [''algo-1'', ''algo-2''] ''algo-1'' ''/opt/ml/model'' world0)))
     = [''/opt/ml/model/model-symbol.json'', ''/opt/ml/model/model-0000.params'',
        ''/opt/ml/model/model-shapes.json'']"
    by (simp add: example_train_leader os_path_join_def)
  moreover from worker have "written (fst (train example_env toy_mx 100 10 (1 / 10) 0 ''data''
       ''data'' [''algo-1'', ''algo-2''] ''algo-2'' ''/opt/ml/model'' world0)) = []"
    by simp
  ultimately show ?thesis by (simp add: example_train_leader example_train_worker)
qed

text \<open>
  C9, amended: for every hosts list that is not empty and does not contain
  \<^verbatim>\<open>current_host\<close>, once both datasets are loaded, the loop ends without binding the shard
  bounds and \<^verbatim>\<open>train\<close> raises UnboundLocalError with the world unchanged: no call into
  the framework (no data iterator, no module, no training) was made and no file written.
  For a host that is in the list the bounds are always bound.
\<close>

theorem train_host_absent:
  assumes "load_data env training_channel = Inr (train_labels, train_images)"
      and "load_data env testing_channel = Inr (test_labels, test_images)"
      and "hosts \<noteq> []"
      and "current_host \<notin> set hosts"
  shows "train env fw batch_size epochs learning_rate num_gpus training_channel testing_channel
           hosts current_host model_dir w = (w, Inl UnboundLocalError)
       \<and> (\<forall>n. shard_loop (n div length hosts) 0 hosts current_host = None)
       \<and> (\<forall>n. \<forall>h \<in> set hosts. \<exists>start stop. shard_bounds n hosts h = Inr (start, stop))"
proof -
  from load_data_Inr [OF assms(1)] obtain n where
    sh: "shape train_images = n # [1, 28, 28]" by auto
  have "shard_bounds n hosts current_host = Inl UnboundLocalError"
    using assms(3,4) by (rule shard_bounds_absent)
  with assms(1,2) sh have 1: "train env fw batch_size epochs learning_rate num_gpus
       training_channel testing_channel hosts current_host model_dir w = (w, Inl UnboundLocalError)"
    by (rule train_shard_error)
  have 2: "\<forall>n. shard_loop (n div length hosts) 0 hosts current_host = None"
    using assms(4) by (simp add: shard_loop_None)
  have 3: "\<forall>n. \<forall>h \<in> set hosts. \<exists>start stop. shard_bounds n hosts h = Inr (start, stop)"
    using shard_bounds_member by blast
  from 1 2 3 show ?thesis by blast
qed

text \<open>A third host that is not in the list of two.\<close>

theorem train_host_absent_witness:
  "[''algo-1'', ''algo-2''] \<noteq> [] \<and> ''algo-3'' \<notin> set [''algo-1'', ''algo-2'']
   \<and> train example_env toy_mx 100 10 (1 / 10) 0 ''data'' ''data''
       [''algo-1'', ''algo-2''] ''algo-3'' ''/opt/ml/model'' world0
     = (world0, Inl UnboundLocalError)"
proof -
  have h1: "[''algo-1'', ''algo-2''] \<noteq> []" by simp
  have h2: "''algo-3'' \<notin> set [''algo-1'', ''algo-2'']" by simp
  note t = train_host_absent [OF example_loaded example_loaded h1 h2,
      where fw = toy_mx and batch_size = 100 and epochs = 10 and learning_rate = "1 / 10"
        and num_gpus = 0 and model_dir = "''/opt/ml/model''" and w = world0, THEN conjunct1]
  from h1 h2 t show ?thesis by blast
qed

text \<open>
  C9, as stated, for the empty hosts list: it does not contain \<^verbatim>\<open>current_host\<close>, and
  \<^verbatim>\<open>train\<close> raises ZeroDivisionError on computing the shard size, before the loop; it
  does not raise UnboundLocalError.
\<close>

theorem train_host_absent_counterexample:
  "''algo-1'' \<notin> set []
   \<and> train example_env toy_mx 100 10 (1 / 10) 0 ''data'' ''data'' [] ''algo-1'' ''/opt/ml/model'' world0
     = (world0, Inl ZeroDivisionError)
   \<and> snd (train example_env toy_mx 100 10 (1 / 10) 0 ''data'' ''data'' [] ''algo-1''
            ''/opt/ml/model'' world0) \<noteq> Inl UnboundLocalError"
  by (simp add: train_defs example_defs)

subsection \<open>The inference hook\<close>

text \<open>
  C3: for every input content type other than \<^verbatim>\<open>application/x-npy\<close>, \<^verbatim>\<open>transform_fn\<close>
  raises RuntimeError, whatever the payload and the framework: the only effect is the log
  message at entry; the state of the model handle is unchanged, and the payload is not
  deserialized, no array is built, no forward pass runs and no output is read.
\<close>

theorem transform_fn_rejects:
  assumes "input_content_type \<noteq> ''application/x-npy''"
  shows "transform_fn sv payload input_content_type output_content_type w
           = (w\<lparr>events := events w @ [logging_info ''Invoking user-defined transform_fn'']\<rparr>,
              Inl (RuntimeError ''Input content type must be application/x-npy''))
       \<and> handle (fst (transform_fn sv payload input_content_type output_content_type w)) = handle w
       \<and> np_load_event \<notin> set (drop (length (events w))
            (events (fst (transform_fn sv payload input_content_type output_content_type w))))
       \<and> nd_array_event \<notin> set (drop (length (events w))
            (events (fst (transform_fn sv payload input_content_type output_content_type w))))
       \<and> forward_event \<notin> set (drop (length (events w))
            (events (fst (transform_fn sv payload input_content_type output_content_type w))))
       \<and> get_outputs_event \<notin> set (drop (length (events w))
            (events (fst (transform_fn sv payload input_content_type output_content_type w))))"
  using assms by (simp add: transform_fn_def and_then_def emit_def no_effect_def)

text \<open>A request that declares \<^verbatim>\<open>text/csv\<close> is rejected.\<close>

theorem transform_fn_rejects_witness:
  "''text/csv'' \<noteq> ''application/x-npy''
   \<and> transform_fn toy_serving [1, 2, 3] ''text/csv'' ''application/json'' toy_world
       = (\<lparr>handle = 0, events = [logging_info ''Invoking user-defined transform_fn'']\<rparr>,
          Inl (RuntimeError ''Input content type must be application/x-npy''))"
  using transform_fn_rejects [of "''text/csv''" toy_serving "[1, 2, 3]" "''application/json''" toy_world]
  by (simp add: toy_world_def)

lemma transform_fn_returns:
  "transform_fn sv payload ict oct w = (w', Inr (j, ct)) \<Longrightarrow> ct = ''application/json''"
  by (auto simp: transform_fn_def and_then_def emit_def no_effect_def mod_forward_def
      mod_get_outputs_0_def np_max_all_def Let_def
      split: if_splits sum.splits prod.splits option.splits list.splits)

text \<open>
  C7: two calls of \<^verbatim>\<open>transform_fn\<close> that differ only in the requested output content type
  have the same outcome (final world, and exception or returned pair), and whenever the
  call returns, the returned content type is \<^verbatim>\<open>application/json\<close>.
\<close>

theorem transform_fn_content_type:
  "transform_fn sv payload input_content_type requested w
     = transform_fn sv payload input_content_type requested' w
   \<and> (\<forall>w' output_json content_type.
        transform_fn sv payload input_content_type requested w = (w', Inr (output_json, content_type))
        \<longrightarrow> content_type = ''application/json'')"
proof -
  have "transform_fn sv payload input_content_type requested
          = transform_fn sv payload input_content_type requested'"
    by (simp add: transform_fn_def)
  then show ?thesis using transform_fn_returns by metis
qed

text \<open>A call that returns: it requested \<^verbatim>\<open>text/csv\<close> and gets \<^verbatim>\<open>application/json\<close>.\<close>

theorem transform_fn_content_type_witness:
  "transform_fn toy_serving [1, 2, 3] ''application/x-npy'' ''text/csv'' toy_world
     = (\<lparr>handle = 1, events = [logging_info ''Invoking user-defined transform_fn'',
          np_load_event, nd_array_event, forward_event, get_outputs_event]\<rparr>,
        Inr (''[1, 0, 0]'', ''application/json''))
   \<and> transform_fn toy_serving [1, 2, 3] ''application/x-npy'' ''text/csv'' toy_world
     = transform_fn toy_serving [1, 2, 3] ''application/x-npy'' ''application/x-npy'' toy_world"
  using transform_fn_content_type [of toy_serving "[1, 2, 3]" "''application/x-npy''" "''text/csv''"
      toy_world "''application/x-npy''"]
  by (simp add: transform_fn_def and_then_def emit_def no_effect_def mod_forward_def
      mod_get_outputs_0_def np_max_all_def Let_def toy_serving_def toy_world_def np_squeeze_def
      nd_map_def)









end
